theory Spec2Isabelle
  imports Complex_Main "HOL-Library.Sublist"
begin

section \<open>JavaScript values\<close>

text \<open>
  The route handlers work on values of type \<^verbatim>\<open>any\<close>: whatever \<^verbatim>\<open>JSON.parse\<close> made of an
  upstream body. The model therefore keeps the dynamic values of the language. A string is a
  list of characters, one \<^typ>\<open>char\<close> for one code unit. A number is the value of a double;
  \<^verbatim>\<open>NaN\<close> is left out, since no JSON text decodes to it. An object is the list of its own
  properties in insertion order, every key once.
\<close>

datatype jsnum = Finite rat | PosInfinity | NegInfinity

datatype jsval =
    JUndefined
  | JNull
  | JBool bool
  | JNum jsnum
  | JStr string
  | JArr "jsval list"
  | JObj "(string \<times> jsval) list"

text \<open>
  The faults of the engine itself (a \<^verbatim>\<open>TypeError\<close>), by cause. Their wording belongs to
  the engine, not to the program.
\<close>

datatype type_fault =
    ReadOfNullish jsval string
  | NotAFunction string
  | NotPrimitive

datatype js_error = JsError (err_name: string) (err_message: string)

text \<open>
  What the program takes from its platform: the JSON codec, the printing of numbers, URL
  escaping and the wording of a \<^verbatim>\<open>TypeError\<close>.
\<close>

record js_runtime =
  JSON_parse :: "string \<Rightarrow> jsval option"
  JSON_stringify :: "jsval \<Rightarrow> string"
  Number_toString :: "jsnum \<Rightarrow> string"
  encodeURIComponent :: "string \<Rightarrow> string"
  TypeError_message :: "type_fault \<Rightarrow> string"

definition TypeError :: "js_runtime \<Rightarrow> type_fault \<Rightarrow> js_error" where
  "TypeError rt f = JsError ''TypeError'' (TypeError_message rt f)"

fun truthy :: "jsval \<Rightarrow> bool" where
  "truthy JUndefined = False"
| "truthy JNull = False"
| "truthy (JBool b) = b"
| "truthy (JNum n) = (n \<noteq> Finite 0)"
| "truthy (JStr s) = (s \<noteq> [])"
| "truthy (JArr xs) = True"
| "truthy (JObj kvs) = True"

text \<open>\<^verbatim>\<open>a || b\<close>\<close>

definition js_or :: "jsval \<Rightarrow> jsval \<Rightarrow> jsval" where
  "js_or a b = (if truthy a then a else b)"

fun nullish :: "jsval \<Rightarrow> bool" where
  "nullish JUndefined = True"
| "nullish JNull = True"
| "nullish v = False"

fun is_string :: "jsval \<Rightarrow> bool" where
  "is_string (JStr s) = True"
| "is_string v = False"

text \<open>
  \<^verbatim>\<open>v.k\<close> on a value that is neither \<^verbatim>\<open>null\<close> nor \<^verbatim>\<open>undefined\<close>, for the property names
  the program reads (\<^verbatim>\<open>prompt\<close>, \<^verbatim>\<open>error\<close>, \<^verbatim>\<open>message\<close>, \<^verbatim>\<open>choices\<close>, \<^verbatim>\<open>content\<close>, \<^verbatim>\<open>models\<close>,
  \<^verbatim>\<open>supportedGenerationMethods\<close>, \<^verbatim>\<open>name\<close>, \<^verbatim>\<open>candidates\<close>, \<^verbatim>\<open>parts\<close>, \<^verbatim>\<open>text\<close>): none of them
  is inherited from a prototype, so only an object's own property can answer.
\<close>

fun own_prop :: "jsval \<Rightarrow> string \<Rightarrow> jsval" where
  "own_prop (JObj kvs) k = (case map_of kvs k of Some v \<Rightarrow> v | None \<Rightarrow> JUndefined)"
| "own_prop v k = JUndefined"

text \<open>\<^verbatim>\<open>v.k\<close>: reading a property of \<^verbatim>\<open>null\<close> or \<^verbatim>\<open>undefined\<close> throws.\<close>

definition get_prop :: "js_runtime \<Rightarrow> jsval \<Rightarrow> string \<Rightarrow> js_error + jsval" where
  "get_prop rt v k = (if nullish v then Inl (TypeError rt (ReadOfNullish v k)) else Inr (own_prop v k))"

text \<open>\<^verbatim>\<open>v?.k\<close>: a chain of these yields \<^verbatim>\<open>undefined\<close> from the first nullish link on.\<close>

definition opt_get :: "jsval \<Rightarrow> string \<Rightarrow> jsval" where
  "opt_get v k = (if nullish v then JUndefined else own_prop v k)"

text \<open>
  \<^verbatim>\<open>v?.[0]\<close>: the first element of an array, the first character of a string, the own
  property \<^verbatim>\<open>"0"\<close> of an object.
\<close>

fun opt_index0 :: "jsval \<Rightarrow> jsval" where
  "opt_index0 (JArr xs) = (case xs of [] \<Rightarrow> JUndefined | x # _ \<Rightarrow> x)"
| "opt_index0 (JStr s) = (case s of [] \<Rightarrow> JUndefined | c # _ \<Rightarrow> JStr [c])"
| "opt_index0 (JObj kvs) = (case map_of kvs ''0'' of Some v \<Rightarrow> v | None \<Rightarrow> JUndefined)"
| "opt_index0 v = JUndefined"

subsection \<open>Conversion to string\<close>

definition digit_char :: "nat \<Rightarrow> char" where
  "digit_char d =
     (if d = 0 then CHR ''0'' else if d = 1 then CHR ''1'' else if d = 2 then CHR ''2''
      else if d = 3 then CHR ''3'' else if d = 4 then CHR ''4'' else if d = 5 then CHR ''5''
      else if d = 6 then CHR ''6'' else if d = 7 then CHR ''7'' else if d = 8 then CHR ''8''
      else CHR ''9'')"

text \<open>An integer status or length inside a template literal prints in decimal.\<close>

function decimal :: "nat \<Rightarrow> string" where
  "decimal n = (if n < 10 then [digit_char n] else decimal (n div 10) @ [digit_char (n mod 10)])"
  by pat_completeness auto
termination
  by (relation "measure id") auto

declare decimal.simps [simp del]

definition join_with :: "string \<Rightarrow> string list \<Rightarrow> string" where
  "join_with sep xs = (case xs of [] \<Rightarrow> [] | y # ys \<Rightarrow> foldl (\<lambda>acc s. acc @ sep @ s) y ys)"

text \<open>
  \<^verbatim>\<open>String(v)\<close>, as a template literal and \<^verbatim>\<open>Array.prototype.join\<close> apply it. A plain object
  prints as \<^verbatim>\<open>[object Object]\<close> through the inherited \<^verbatim>\<open>toString\<close>; an own property of that
  name decoded from JSON is never callable, and then the conversion throws. An array prints
  its elements joined by commas, \<^verbatim>\<open>null\<close> and \<^verbatim>\<open>undefined\<close> as nothing.
\<close>

fun to_string :: "js_runtime \<Rightarrow> jsval \<Rightarrow> js_error + string"
  and element_strings :: "js_runtime \<Rightarrow> jsval list \<Rightarrow> js_error + string list" where
  "to_string rt JUndefined = Inr ''undefined''"
| "to_string rt JNull = Inr ''null''"
| "to_string rt (JBool b) = Inr (if b then ''true'' else ''false'')"
| "to_string rt (JNum n) = Inr (Number_toString rt n)"
| "to_string rt (JStr s) = Inr s"
| "to_string rt (JArr xs) =
     (case element_strings rt xs of Inl e \<Rightarrow> Inl e | Inr ss \<Rightarrow> Inr (join_with '','' ss))"
| "to_string rt (JObj kvs) =
     (if ''toString'' \<in> fst ` set kvs then Inl (TypeError rt NotPrimitive)
      else Inr ''[object Object]'')"
| "element_strings rt [] = Inr []"
| "element_strings rt (x # xs) =
     (case (if nullish x then Inr [] else to_string rt x) of
        Inl e \<Rightarrow> Inl e
      | Inr s \<Rightarrow> (case element_strings rt xs of Inl e \<Rightarrow> Inl e | Inr ss \<Rightarrow> Inr (s # ss)))"

text \<open>\<^verbatim>\<open>xs.join(sep)\<close>\<close>

definition js_join :: "js_runtime \<Rightarrow> string \<Rightarrow> jsval list \<Rightarrow> js_error + string" where
  "js_join rt sep xs =
     (case element_strings rt xs of Inl e \<Rightarrow> Inl e | Inr ss \<Rightarrow> Inr (join_with sep ss))"

text \<open>\<^verbatim>\<open>String(e)\<close> of an error object.\<close>

definition error_to_string :: "js_error \<Rightarrow> string" where
  "error_to_string e =
     (if err_name e = [] then err_message e
      else if err_message e = [] then err_name e
      else err_name e @ '': '' @ err_message e)"

section \<open>The platform: outbound calls, replies, configuration\<close>

record out_request =
  rq_url :: string
  rq_method :: string
  rq_headers :: "(string \<times> string) list"
  rq_body :: "string option"

text \<open>
  \<^verbatim>\<open>fetch\<close> either rejects, or resolves with a status and a body whose \<^verbatim>\<open>text()\<close> may reject in
  turn. The upstream answers as a function of the request it receives; no handler sends the
  same request twice.
\<close>

datatype fetch_outcome = Rejects js_error | Resolves nat "js_error + string"

type_synonym network = "out_request \<Rightarrow> fetch_outcome"

definition res_ok :: "nat \<Rightarrow> bool" where
  "res_ok st = (200 \<le> st \<and> st \<le> 299)"

text \<open>\<^verbatim>\<open>res.status || 502\<close>\<close>

definition status_or :: "nat \<Rightarrow> nat \<Rightarrow> nat" where
  "status_or st d = (if st = 0 then d else st)"

record http_reply =
  reply_status :: nat
  reply_body :: jsval

text \<open>
  \<^verbatim>\<open>NextResponse.json(body, { status })\<close>, as the reply it stands for. The framework refuses a
  status outside 200 to 599 and a body under a status that forbids one (204, 205, 304); it
  throws then, and the route's \<^verbatim>\<open>catch\<close> answers HTTP 500. Those checks are the framework's, not
  the program's: here the constructor is total, so an upstream status of that kind is passed
  on as it is.
\<close>

definition NextResponse_json :: "jsval \<Rightarrow> nat \<Rightarrow> http_reply" where
  "NextResponse_json b st = \<lparr>reply_status = st, reply_body = b\<rparr>"

definition error_body :: "string \<Rightarrow> jsval" where
  "error_body msg = JObj [(''error'', JStr msg)]"

record process_env =
  GROQ_API_KEY :: "string option"
  GEMINI_API_KEY :: "string option"
  NEXT_PUBLIC_GROQ_API_KEY :: "string option"

text \<open>
  \<^verbatim>\<open>await req.json()\<close> of the inbound request: the decoded body, or \<open>None\<close> when the promise
  rejects (the body is not JSON).
\<close>

type_synonym inbound = "jsval option"

text \<open>A computation that issues outbound calls: the calls in order, and the value or the throw.\<close>

type_synonym 'a traced = "out_request list \<times> (js_error + 'a)"

text \<open>\<^verbatim>\<open>await fetch(rq)\<close> followed by \<^verbatim>\<open>await res.text()\<close>.\<close>

definition fetch_text :: "network \<Rightarrow> out_request \<Rightarrow> js_error + (nat \<times> string)" where
  "fetch_text net rq =
     (case net rq of
        Rejects e \<Rightarrow> Inl e
      | Resolves st b \<Rightarrow> (case b of Inl e \<Rightarrow> Inl e | Inr raw \<Rightarrow> Inr (st, raw)))"

text \<open>\<^verbatim>\<open>e?.message || fallback\<close> in the outermost \<^verbatim>\<open>catch\<close> of a route.\<close>

definition route_failed :: "string \<Rightarrow> js_error \<Rightarrow> http_reply" where
  "route_failed fallback e =
     NextResponse_json
       (error_body (if err_message e \<noteq> [] then err_message e else fallback)) 500"

section \<open>The Groq route\<close>

definition GROQ_SYSTEM :: string where
  "GROQ_SYSTEM =
     ''You are EduNex, an assistant chatbot for Nilgiri College of Arts and Science, Thaloor, The Nilgiris, Tamil Nadu (https://nilgiricollege.ac. in/). '' @
     ''Always answer as if you represent Nilgiri College of Arts and Science located in Thaloor, The Nilgiris district, Tamil Nadu, India. '' @
     ''DO NOT confuse this with any other Nilgiri College, especially the one in West Bengal. '' @
     ''Constrain your answers to plausible information about this specific college:  courses, departments, fees, '' @
     ''admissions, campus life, etc. If something is unclear or not known, say you are not sure and '' @
     ''suggest visiting the official website or contacting the college office.''"

definition groq_payload :: "string \<Rightarrow> jsval" where
  "groq_payload prompt =
     JObj [
       (''model'', JStr ''llama-3.1-8b-instant''),
       (''messages'', JArr [
          JObj [(''role'', JStr ''system''), (''content'', JStr GROQ_SYSTEM)],
          JObj [(''role'', JStr ''user''),
                (''content'', JStr (''User asked this (assume they are talking about Nilgiri College of Arts and Science in Thaloor, Tamil Nadu):\<newline>\<newline>'' @ prompt))]]),
       (''temperature'', JNum (Finite (1 / 2))),
       (''max_tokens'', JNum (Finite 1024))]"

definition groq_request :: "js_runtime \<Rightarrow> string \<Rightarrow> string \<Rightarrow> out_request" where
  "groq_request rt key prompt =
     \<lparr>rq_url = ''https://api.groq. com/openai/v1/chat/completions'',
      rq_method = ''POST'',
      rq_headers = [(''Content-Type'', ''application/json''), (''Authorization'', ''Bearer '' @ key)],
      rq_body = Some (JSON_stringify rt (groq_payload prompt))\<rparr>"

text \<open>
  \<^verbatim>\<open>json?.choices?.[0]?.message?.content\<close> (source lines 86 and 395; the blank that line 86
  shows inside \<^verbatim>\<open>?.\<close> is not part of the chain).
\<close>

definition groq_content :: "jsval \<Rightarrow> jsval" where
  "groq_content json = opt_get (opt_get (opt_index0 (opt_get json ''choices'')) ''message'') ''content''"

text \<open>
  \<^verbatim>\<open>json?.error?.message || json?.error || (typeof json === "string" ? json : JSON.stringify(json))\<close>
\<close>

definition groq_error_value :: "js_runtime \<Rightarrow> jsval \<Rightarrow> jsval" where
  "groq_error_value rt json =
     js_or (opt_get (opt_get json ''error'') ''message'')
       (js_or (opt_get json ''error'')
          (if is_string json then json else JStr (JSON_stringify rt json)))"

text \<open>The route from the upstream's status and raw text on (source lines 58 to 95).\<close>

definition groq_respond :: "js_runtime \<Rightarrow> nat \<Rightarrow> string \<Rightarrow> js_error + http_reply" where
  "groq_respond rt st raw =
     (if raw = [] then
        Inr (NextResponse_json
               (error_body (''Groq returned empty response ('' @ decimal st @ '')''))
               (status_or st 502))
      else case JSON_parse rt raw of
        None \<Rightarrow>
          Inr (NextResponse_json
                 (error_body (''Groq returned invalid JSON ('' @ decimal st @ ''): '' @ take 200 raw))
                 (status_or st 502))
      | Some json \<Rightarrow>
          if \<not> res_ok st then
            (case to_string rt (groq_error_value rt json) of
               Inl e \<Rightarrow> Inl e
             | Inr msg \<Rightarrow>
                 Inr (NextResponse_json
                        (error_body (''Groq API Error ('' @ decimal st @ ''): '' @ msg)) st))
          else
            (let text = js_or (groq_content json) (JStr [])
             in if \<not> truthy text then
                  Inr (NextResponse_json (error_body ''Groq response had no content'') 500)
                else
                  Inr (NextResponse_json
                         (JObj [(''text'', text), (''provider'', JStr ''groq'')]) 200)))"

text \<open>The string held by a value already known to be one.\<close>

fun string_of :: "jsval \<Rightarrow> string" where
  "string_of (JStr s) = s"
| "string_of v = []"

text \<open>The body of the outer \<^verbatim>\<open>try\<close>.\<close>

definition groq_try :: "js_runtime \<Rightarrow> process_env \<Rightarrow> network \<Rightarrow> inbound \<Rightarrow> http_reply traced" where
  "groq_try rt env net req =
     (case req of
        None \<Rightarrow> ([], Inr (NextResponse_json (error_body ''Invalid request body'') 400))
      | Some body \<Rightarrow>
          (let prompt = opt_get body ''prompt''
           in if \<not> truthy prompt \<or> \<not> is_string prompt then
                ([], Inr (NextResponse_json (error_body ''Missing prompt'') 400))
              else
                (case GROQ_API_KEY env of
                   None \<Rightarrow>
                     ([], Inr (NextResponse_json (error_body ''GROQ_API_KEY not configured'') 500))
                 | Some key \<Rightarrow>
                     if key = [] then
                       ([], Inr (NextResponse_json (error_body ''GROQ_API_KEY not configured'') 500))
                     else
                       (let rq = groq_request rt key (string_of prompt)
                        in ([rq],
                            case fetch_text net rq of
                              Inl e \<Rightarrow> Inl e
                            | Inr (st, raw) \<Rightarrow> groq_respond rt st raw)))))"

definition groq_POST :: "js_runtime \<Rightarrow> process_env \<Rightarrow> network \<Rightarrow> inbound \<Rightarrow> out_request list \<times> http_reply" where
  "groq_POST rt env net req =
     (case groq_try rt env net req of
        (calls, Inl e) \<Rightarrow> (calls, route_failed ''Groq route failed'' e)
      | (calls, Inr r) \<Rightarrow> (calls, r))"

section \<open>The Gemini route\<close>

subsection \<open>Listing the models\<close>

datatype api_version = V1 | V1beta

fun version_tag :: "api_version \<Rightarrow> string" where
  "version_tag V1 = ''v1''"
| "version_tag V1beta = ''v1beta''"

text \<open>The result of \<^verbatim>\<open>listModels\<close>: \<^verbatim>\<open>{ models: ListedModel[]; error?: string }\<close>.\<close>

record listing =
  l_models :: "jsval list"
  l_error :: "string option"

definition list_request :: "js_runtime \<Rightarrow> string \<Rightarrow> api_version \<Rightarrow> out_request" where
  "list_request rt apiKey version =
     \<lparr>rq_url = ''https://generativelanguage.googleapis.com/'' @ version_tag version @ ''/models''
                @ ''?key='' @ encodeURIComponent rt apiKey,
      rq_method = ''GET'',
      rq_headers = [(''Content-Type'', ''application/json'')],
      rq_body = None\<rparr>"

text \<open>\<^verbatim>\<open>data?.error?.message || JSON.stringify(data)\<close>\<close>

definition list_error_value :: "js_runtime \<Rightarrow> jsval \<Rightarrow> jsval" where
  "list_error_value rt data =
     js_or (opt_get (opt_get data ''error'') ''message'') (JStr (JSON_stringify rt data))"

definition listModels_try :: "js_runtime \<Rightarrow> network \<Rightarrow> string \<Rightarrow> api_version \<Rightarrow> js_error + listing" where
  "listModels_try rt net apiKey version =
     (case fetch_text net (list_request rt apiKey version) of
        Inl e \<Rightarrow> Inl e
      | Inr (st, raw) \<Rightarrow>
          if raw = [] then
            Inr \<lparr>l_models = [],
                 l_error = Some (''ListModels empty response ('' @ decimal st @ '') for '' @ version_tag version)\<rparr>
          else
            (case JSON_parse rt raw of
               None \<Rightarrow>
                 Inr \<lparr>l_models = [],
                      l_error = Some (''ListModels invalid JSON ('' @ decimal st @ '') for ''
                                      @ version_tag version @ '': '' @ take 120 raw)\<rparr>
             | Some data \<Rightarrow>
                 if \<not> res_ok st then
                   (case to_string rt (list_error_value rt data) of
                      Inl e \<Rightarrow> Inl e
                    | Inr msg \<Rightarrow>
                        Inr \<lparr>l_models = [],
                             l_error = Some (''ListModels API error ('' @ decimal st @ '') for ''
                                             @ version_tag version @ '': '' @ msg)\<rparr>)
                 else
                   (case get_prop rt data ''models'' of
                      Inl e \<Rightarrow> Inl e
                    | Inr ms \<Rightarrow>
                        Inr \<lparr>l_models = (case ms of JArr xs \<Rightarrow> xs | _ \<Rightarrow> []),
                             l_error = None\<rparr>)))"

text \<open>
  \<^verbatim>\<open>listModels\<close>: the one call it issues, and its result. Its \<^verbatim>\<open>catch\<close> turns every throw into
  an empty listing with an error (\<^verbatim>\<open>e?.message || e\<close>).
\<close>

definition listModels :: "js_runtime \<Rightarrow> network \<Rightarrow> string \<Rightarrow> api_version \<Rightarrow> out_request list \<times> listing" where
  "listModels rt net apiKey version =
     ([list_request rt apiKey version],
      case listModels_try rt net apiKey version of
        Inl e \<Rightarrow>
          \<lparr>l_models = [],
           l_error = Some (''ListModels fetch failed for '' @ version_tag version @ '': ''
                           @ (if err_message e \<noteq> [] then err_message e else error_to_string e))\<rparr>
      | Inr l \<Rightarrow> l)"

subsection \<open>Choosing a model\<close>

definition lower_char :: "char \<Rightarrow> char" where
  "lower_char c =
     (case map_of (zip ''ABCDEFGHIJKLMNOPQRSTUVWXYZ'' ''abcdefghijklmnopqrstuvwxyz'') c of
        Some l \<Rightarrow> l
      | None \<Rightarrow> c)"

text \<open>
  \<^verbatim>\<open>toLowerCase\<close> on the letters A to Z. The other characters stay, which is all that the
  search for \<^verbatim>\<open>flash\<close> and \<^verbatim>\<open>pro\<close> can see.
\<close>

definition toLowerCase :: "string \<Rightarrow> string" where
  "toLowerCase s = map lower_char s"

text \<open>\<^verbatim>\<open>Array.isArray(m.supportedGenerationMethods) && m.supportedGenerationMethods.includes("generateContent")\<close>\<close>

definition supportsGenerate :: "js_runtime \<Rightarrow> jsval \<Rightarrow> js_error + bool" where
  "supportsGenerate rt m =
     (case get_prop rt m ''supportedGenerationMethods'' of
        Inl e \<Rightarrow> Inl e
      | Inr ms \<Rightarrow> Inr (case ms of JArr xs \<Rightarrow> JStr ''generateContent'' \<in> set xs | _ \<Rightarrow> False))"

text \<open>\<^verbatim>\<open>byPriority(name)\<close>: \<^verbatim>\<open>name.toLowerCase()\<close> throws unless the name is a string.\<close>

definition byPriority :: "js_runtime \<Rightarrow> jsval \<Rightarrow> js_error + nat" where
  "byPriority rt name =
     (case name of
        JStr s \<Rightarrow>
          (let n = toLowerCase s
           in Inr (if sublist ''flash'' n then 1 else if sublist ''pro'' n then 2 else 3))
      | v \<Rightarrow>
          Inl (TypeError rt (if nullish v then ReadOfNullish v ''toLowerCase''
                             else NotAFunction ''name.toLowerCase'')))"

text \<open>\<^verbatim>\<open>models.filter(p)\<close> for a predicate that may throw.\<close>

fun filter_throwing :: "('a \<Rightarrow> js_error + bool) \<Rightarrow> 'a list \<Rightarrow> js_error + 'a list" where
  "filter_throwing p [] = Inr []"
| "filter_throwing p (x # xs) =
     (case p x of
        Inl e \<Rightarrow> Inl e
      | Inr b \<Rightarrow>
          (case filter_throwing p xs of
             Inl e \<Rightarrow> Inl e
           | Inr ys \<Rightarrow> Inr (if b then x # ys else ys)))"

text \<open>\<^verbatim>\<open>xs.map(f)\<close> for a function that may throw.\<close>

fun map_throwing :: "('a \<Rightarrow> js_error + 'b) \<Rightarrow> 'a list \<Rightarrow> js_error + 'b list" where
  "map_throwing f [] = Inr []"
| "map_throwing f (x # xs) =
     (case f x of
        Inl e \<Rightarrow> Inl e
      | Inr y \<Rightarrow> (case map_throwing f xs of Inl e \<Rightarrow> Inl e | Inr ys \<Rightarrow> Inr (y # ys)))"

text \<open>The priority of a model whose name is known to be a string.\<close>

definition priority_of :: "js_runtime \<Rightarrow> jsval \<Rightarrow> nat" where
  "priority_of rt m = (case byPriority rt (own_prop m ''name'') of Inr p \<Rightarrow> p | Inl e \<Rightarrow> 0)"

text \<open>
  \<^verbatim>\<open>filtered.sort((a, b) => byPriority(a.name) - byPriority(b.name))\<close>. The sort is stable.
  On fewer than two elements the comparator is never called; on two or more every element
  is compared, so a name that is not a string throws. When several names are not strings the
  model reports the first in listing order; the language leaves the order of comparisons
  open, and an engine may meet another one first. Only the message of the fault depends on
  that choice.
\<close>

definition sort_by_priority :: "js_runtime \<Rightarrow> jsval list \<Rightarrow> js_error + jsval list" where
  "sort_by_priority rt filtered =
     (if length filtered < 2 then Inr filtered
      else case map_throwing (\<lambda>m. byPriority rt (own_prop m ''name'')) filtered of
        Inl e \<Rightarrow> Inl e
      | Inr ps \<Rightarrow> Inr (sort_key (priority_of rt) filtered))"

text \<open>\<^verbatim>\<open>pickGenerateContentModel\<close>; \<open>None\<close> is its \<^verbatim>\<open>null\<close>.\<close>

definition pickGenerateContentModel :: "js_runtime \<Rightarrow> jsval list \<Rightarrow> js_error + jsval option" where
  "pickGenerateContentModel rt models =
     (case filter_throwing (supportsGenerate rt) models of
        Inl e \<Rightarrow> Inl e
      | Inr filtered \<Rightarrow>
          (case sort_by_priority rt filtered of
             Inl e \<Rightarrow> Inl e
           | Inr ranked \<Rightarrow> Inr (case ranked of [] \<Rightarrow> None | m # _ \<Rightarrow> Some m)))"

subsection \<open>The handler\<close>

definition GEMINI_INSTRUCTION :: string where
  "GEMINI_INSTRUCTION =
     ''You are EduNex, an assistant chatbot for Nilgiri College of Arts and Science, Thaloor, The Nilgiris, Tamil Nadu (https://nilgiricollege.ac.in/). '' @
     ''Always answer as if you represent Nilgiri College of Arts and Science located in Thaloor, The Nilgiris district, Tamil Nadu, India. '' @
     ''DO NOT confuse this with any other Nilgiri College, especially the one in West Bengal. '' @
     ''Focus your answers on this specific college's courses, departments, fees, admissions, campus life, etc. '' @
     ''If you are not sure about exact facts like current fees or dates, say that clearly and '' @
     ''suggest visiting the official website or contacting the college.''"

definition combinedPrompt :: "string \<Rightarrow> string" where
  "combinedPrompt prompt = GEMINI_INSTRUCTION @ ''\<newline>\<newline>User question:\<newline>'' @ prompt"

definition gemini_payload :: "string \<Rightarrow> jsval" where
  "gemini_payload prompt =
     JObj [
       (''contents'', JArr [
          JObj [(''role'', JStr ''user''),
                (''parts'', JArr [JObj [(''text'', JStr (combinedPrompt prompt))]])]]),
       (''generationConfig'',
          JObj [(''temperature'', JNum (Finite (1 / 2))), (''maxOutputTokens'', JNum (Finite 1024))])]"

definition generate_request :: "js_runtime \<Rightarrow> string \<Rightarrow> api_version \<Rightarrow> string \<Rightarrow> string \<Rightarrow> out_request" where
  "generate_request rt apiKey version bareModel prompt =
     \<lparr>rq_url = ''https://generativelanguage.googleapis.com/'' @ version_tag version @ ''/models/''
                @ bareModel @ '':generateContent'',
      rq_method = ''POST'',
      rq_headers = [(''Content-Type'', ''application/json''), (''x-goog-api-key'', apiKey)],
      rq_body = Some (JSON_stringify rt (gemini_payload prompt))\<rparr>"

text \<open>
  \<^verbatim>\<open>selected.name.startsWith("models/") ? selected.name.replace(/^models\//, "") : selected.name\<close>;
  \<^verbatim>\<open>startsWith\<close> exists on strings only.
\<close>

definition strip_namespace :: "string \<Rightarrow> string" where
  "strip_namespace s = (if prefix ''models/'' s then drop 7 s else s)"

definition bareModel_of :: "js_runtime \<Rightarrow> jsval \<Rightarrow> js_error + string" where
  "bareModel_of rt name =
     (case name of
        JStr s \<Rightarrow> Inr (strip_namespace s)
      | v \<Rightarrow>
          Inl (TypeError rt (if nullish v then ReadOfNullish v ''startsWith''
                             else NotAFunction ''selected.name.startsWith'')))"

text \<open>\<^verbatim>\<open>typeof p?.text === "string" ? p.text : ""\<close>\<close>

definition part_text :: "jsval \<Rightarrow> string" where
  "part_text p = (let t = opt_get p ''text'' in if is_string t then string_of t else [])"

text \<open>
  \<^verbatim>\<open>candidate?.content?.parts?.map(...).filter(Boolean).join("\n") || ""\<close>: a \<^verbatim>\<open>parts\<close> that is
  neither nullish nor an array has no callable \<^verbatim>\<open>map\<close>.
\<close>

definition gemini_answer :: "js_runtime \<Rightarrow> jsval \<Rightarrow> js_error + string" where
  "gemini_answer rt data =
     (let candidate = opt_index0 (opt_get data ''candidates'');
          parts = opt_get (opt_get candidate ''content'') ''parts''
      in if nullish parts then Inr []
         else case parts of
           JArr ps \<Rightarrow> Inr (join_with ''\<newline>'' (filter (\<lambda>t. t \<noteq> []) (map part_text ps)))
         | _ \<Rightarrow> Inl (TypeError rt (NotAFunction ''candidate?.content?.parts?.map'')))"

text \<open>
  \<^verbatim>\<open>data?.error?.message || data?.message || (typeof data === "string" ? data : JSON.stringify(data))\<close>
\<close>

definition gemini_error_value :: "js_runtime \<Rightarrow> jsval \<Rightarrow> jsval" where
  "gemini_error_value rt data =
     js_or (opt_get (opt_get data ''error'') ''message'')
       (js_or (opt_get data ''message'')
          (if is_string data then data else JStr (JSON_stringify rt data)))"

definition gemini_label :: "api_version \<Rightarrow> string \<Rightarrow> string" where
  "gemini_label version bareModel = ''Gemini '' @ version_tag version @ ''/'' @ bareModel"

text \<open>The route from the generation call's status and raw text on (source lines 257 to 299).\<close>

definition gemini_respond :: "js_runtime \<Rightarrow> api_version \<Rightarrow> string \<Rightarrow> nat \<Rightarrow> string \<Rightarrow> js_error + http_reply" where
  "gemini_respond rt version bareModel st raw =
     (if raw = [] then
        Inr (NextResponse_json
               (error_body (gemini_label version bareModel @ '' returned empty response ('' @ decimal st @ '')''))
               (status_or st 502))
      else case JSON_parse rt raw of
        None \<Rightarrow>
          Inr (NextResponse_json
                 (error_body (gemini_label version bareModel @ '' returned invalid JSON ('' @ decimal st
                              @ ''): '' @ take 200 raw))
                 (status_or st 502))
      | Some data \<Rightarrow>
          if \<not> res_ok st then
            (case to_string rt (gemini_error_value rt data) of
               Inl e \<Rightarrow> Inl e
             | Inr msg \<Rightarrow>
                 Inr (NextResponse_json
                        (error_body (''Gemini API Error ('' @ version_tag version @ ''/'' @ bareModel
                                     @ '' - '' @ decimal st @ ''): '' @ msg)) st))
          else
            (case gemini_answer rt data of
               Inl e \<Rightarrow> Inl e
             | Inr answer \<Rightarrow>
                 if answer = [] then
                   Inr (NextResponse_json
                          (error_body (gemini_label version bareModel @ '' response had no content'')) 500)
                 else
                   Inr (NextResponse_json
                          (JObj [(''text'', JStr answer), (''provider'', JStr ''gemini''),
                                 (''model'', JStr bareModel), (''version'', JStr (version_tag version))])
                          200)))"

text \<open>\<^verbatim>\<open>list.error ? `tag: ${list.error}` : ""\<close>\<close>

definition reason_error :: "string \<Rightarrow> listing \<Rightarrow> string" where
  "reason_error tag l =
     (case l_error l of None \<Rightarrow> [] | Some e \<Rightarrow> if e = [] then [] else tag @ '': '' @ e)"

text \<open>\<^verbatim>\<open>`tag models (${list.models.length}): ${list.models.map(m => m.name).join(", ") || "none"}`\<close>\<close>

definition reason_models :: "js_runtime \<Rightarrow> string \<Rightarrow> listing \<Rightarrow> js_error + string" where
  "reason_models rt tag l =
     (case map_throwing (\<lambda>m. get_prop rt m ''name'') (l_models l) of
        Inl e \<Rightarrow> Inl e
      | Inr names \<Rightarrow>
          (case js_join rt '', '' names of
             Inl e \<Rightarrow> Inl e
           | Inr joined \<Rightarrow>
               Inr (tag @ '' models ('' @ decimal (length (l_models l)) @ ''): ''
                    @ (if joined = [] then ''none'' else joined))))"

definition NO_MODEL_PREFIX :: string where
  "NO_MODEL_PREFIX =
     ''No Gemini models supporting generateContent were found for your project in v1 or v1beta. '' @
     ''Ensure the API key is from a Google Cloud project with Generative Language API enabled and model access. '' @
     ''Details: ''"

text \<open>The reply when neither version yields a model (source lines 205 to 225).\<close>

definition no_model_reply :: "js_runtime \<Rightarrow> listing \<Rightarrow> listing \<Rightarrow> js_error + http_reply" where
  "no_model_reply rt v1List v1betaList =
     (case reason_models rt ''v1'' v1List of
        Inl e \<Rightarrow> Inl e
      | Inr r3 \<Rightarrow>
          (case reason_models rt ''v1beta'' v1betaList of
             Inl e \<Rightarrow> Inl e
           | Inr r4 \<Rightarrow>
               (let reasons =
                      join_with '' | ''
                        (filter (\<lambda>r. r \<noteq> [])
                           [reason_error ''v1'' v1List, reason_error ''v1beta'' v1betaList, r3, r4])
                in Inr (NextResponse_json (error_body (NO_MODEL_PREFIX @ reasons)) 502))))"

text \<open>The generation call for the chosen model (source lines 227 to 299).\<close>

definition gemini_generate :: "js_runtime \<Rightarrow> network \<Rightarrow> string \<Rightarrow> string \<Rightarrow> api_version \<Rightarrow> jsval \<Rightarrow> http_reply traced" where
  "gemini_generate rt net apiKey prompt version name =
     (case bareModel_of rt name of
        Inl e \<Rightarrow> ([], Inl e)
      | Inr bareModel \<Rightarrow>
          (let rq = generate_request rt apiKey version bareModel prompt
           in ([rq],
               case fetch_text net rq of
                 Inl e \<Rightarrow> Inl e
               | Inr (st, raw) \<Rightarrow> gemini_respond rt version bareModel st raw)))"

text \<open>
  Discovery and generation (source lines 197 to 299), once the prompt and the key are there.
  The calls of the listings come first in the trace, whatever happens after them.
\<close>

definition gemini_discover :: "js_runtime \<Rightarrow> network \<Rightarrow> string \<Rightarrow> string \<Rightarrow> http_reply traced" where
  "gemini_discover rt net apiKey prompt =
     (let (calls1, v1List) = listModels rt net apiKey V1;
          (calls2, v1betaList) =
            (if l_models v1List = [] then listModels rt net apiKey V1beta
             else ([], \<lparr>l_models = [], l_error = None\<rparr>));
          issued = calls1 @ calls2
      in case pickGenerateContentModel rt (l_models v1List) of
           Inl e \<Rightarrow> (issued, Inl e)
         | Inr chosenV1 \<Rightarrow>
             (case (case chosenV1 of
                      None \<Rightarrow> pickGenerateContentModel rt (l_models v1betaList)
                    | Some m \<Rightarrow> Inr None) of
                Inl e \<Rightarrow> (issued, Inl e)
              | Inr chosenV1beta \<Rightarrow>
                  (case chosenV1 of
                     Some m \<Rightarrow>
                       (let (calls, r) = gemini_generate rt net apiKey prompt V1 (own_prop m ''name'')
                        in (issued @ calls, r))
                   | None \<Rightarrow>
                       (case chosenV1beta of
                          Some m \<Rightarrow>
                            (let (calls, r) =
                                   gemini_generate rt net apiKey prompt V1beta (own_prop m ''name'')
                             in (issued @ calls, r))
                        | None \<Rightarrow> (issued, no_model_reply rt v1List v1betaList)))))"

text \<open>The body of the outer \<^verbatim>\<open>try\<close>.\<close>

definition gemini_try :: "js_runtime \<Rightarrow> process_env \<Rightarrow> network \<Rightarrow> inbound \<Rightarrow> http_reply traced" where
  "gemini_try rt env net req =
     (case req of
        None \<Rightarrow> ([], Inr (NextResponse_json (error_body ''Invalid request body'') 400))
      | Some body \<Rightarrow>
          (let prompt = opt_get body ''prompt''
           in if \<not> truthy prompt \<or> \<not> is_string prompt then
                ([], Inr (NextResponse_json (error_body ''Missing prompt'') 400))
              else
                (case GEMINI_API_KEY env of
                   None \<Rightarrow>
                     ([], Inr (NextResponse_json
                                 (error_body ''GEMINI_API_KEY is not configured on the server'') 500))
                 | Some apiKey \<Rightarrow>
                     if apiKey = [] then
                       ([], Inr (NextResponse_json
                                   (error_body ''GEMINI_API_KEY is not configured on the server'') 500))
                     else gemini_discover rt net apiKey (string_of prompt))))"

definition gemini_POST :: "js_runtime \<Rightarrow> process_env \<Rightarrow> network \<Rightarrow> inbound \<Rightarrow> out_request list \<times> http_reply" where
  "gemini_POST rt env net req =
     (case gemini_try rt env net req of
        (calls, Inl e) \<Rightarrow> (calls, route_failed ''Gemini route failed'' e)
      | (calls, Inr r) \<Rightarrow> (calls, r))"

section \<open>The client\<close>

datatype Provider = Gemini | Groq

fun provider_tag :: "Provider \<Rightarrow> string" where
  "provider_tag Gemini = ''gemini''"
| "provider_tag Groq = ''groq''"

definition wrapForNilgiri :: "string \<Rightarrow> string" where
  "wrapForNilgiri prompt =
     ''The user is asking about Nilgiri College of Arts and Science, Thaloor, The Nilgiris, Tamil Nadu, India. '' @
     ''Please answer accordingly.\<newline>\<newline>'' @
     prompt"

definition aiReply_request :: "js_runtime \<Rightarrow> string \<Rightarrow> Provider \<Rightarrow> out_request" where
  "aiReply_request rt prompt provider =
     \<lparr>rq_url = (if provider = Gemini then ''/api/ai/gemini'' else ''/api/ai/groq''),
      rq_method = ''POST'',
      rq_headers = [(''Content-Type'', ''application/json'')],
      rq_body = Some (JSON_stringify rt (JObj [(''prompt'', JStr (wrapForNilgiri prompt))]))\<rparr>"

text \<open>\<^verbatim>\<open>throw new Error(message)\<close>\<close>

definition Error :: "string \<Rightarrow> js_error" where
  "Error msg = JsError ''Error'' msg"

text \<open>\<^verbatim>\<open>aiReply\<close> from the handler's status and raw text on (source lines 336 to 355).\<close>

definition aiReply_respond :: "js_runtime \<Rightarrow> Provider \<Rightarrow> nat \<Rightarrow> string \<Rightarrow> js_error + (jsval \<times> Provider)" where
  "aiReply_respond rt provider st raw =
     (if raw = [] then
        Inl (Error (provider_tag provider @ '' returned empty response ('' @ decimal st @ '')''))
      else case JSON_parse rt raw of
        None \<Rightarrow>
          Inl (Error (provider_tag provider @ '' returned invalid JSON ('' @ decimal st @ ''): ''
                      @ take 200 raw))
      | Some json \<Rightarrow>
          (case get_prop rt json ''error'' of
             Inl e \<Rightarrow> Inl e
           | Inr err \<Rightarrow>
               if \<not> res_ok st \<or> truthy err then
                 (case to_string rt
                         (js_or err (JStr (provider_tag provider @ '' API error ('' @ decimal st @ '')''))) of
                    Inl e \<Rightarrow> Inl e
                  | Inr msg \<Rightarrow> Inl (Error msg))
               else
                 (let text = own_prop json ''text''
                  in if \<not> truthy text then
                       Inl (Error (provider_tag provider @ '' returned empty response''))
                     else Inr (text, provider))))"

text \<open>
  Only \<^verbatim>\<open>fetch\<close> sits inside the \<^verbatim>\<open>try\<close>; a body whose \<^verbatim>\<open>text()\<close> rejects throws as it is.
\<close>

definition aiReply :: "js_runtime \<Rightarrow> network \<Rightarrow> string \<Rightarrow> Provider \<Rightarrow> (jsval \<times> Provider) traced" where
  "aiReply rt net prompt provider =
     (let rq = aiReply_request rt prompt provider
      in ([rq],
          case net rq of
            Rejects fetchError \<Rightarrow>
              Inl (Error (''Failed to connect to '' @ provider_tag provider @ '': ''
                          @ (if err_message fetchError \<noteq> [] then err_message fetchError
                             else ''Network error'')))
          | Resolves st b \<Rightarrow>
              (case b of
                 Inl e \<Rightarrow> Inl e
               | Inr raw \<Rightarrow> aiReply_respond rt provider st raw)))"

definition groqReply_request :: "js_runtime \<Rightarrow> string \<Rightarrow> string \<Rightarrow> out_request" where
  "groqReply_request rt key prompt =
     \<lparr>rq_url = ''https://api.groq.com/openai/v1/chat/completions'',
      rq_method = ''POST'',
      rq_headers = [(''Content-Type'', ''application/json''), (''Authorization'', ''Bearer '' @ key)],
      rq_body = Some (JSON_stringify rt
                  (JObj [(''model'', JStr ''llama-3.1-8b-instant''),
                         (''messages'', JArr [JObj [(''role'', JStr ''user''), (''content'', JStr prompt)]]),
                         (''temperature'', JNum (Finite (3 / 10)))]))\<rparr>"

text \<open>\<^verbatim>\<open>json?.error?.message || json?.error || JSON.stringify(json)\<close>\<close>

definition groqReply_error_value :: "js_runtime \<Rightarrow> jsval \<Rightarrow> jsval" where
  "groqReply_error_value rt json =
     js_or (opt_get (opt_get json ''error'') ''message'')
       (js_or (opt_get json ''error'') (JStr (JSON_stringify rt json)))"

text \<open>\<^verbatim>\<open>groqReply\<close> from the upstream's status and raw text on (source lines 379 to 396).\<close>

definition groqReply_respond :: "js_runtime \<Rightarrow> nat \<Rightarrow> string \<Rightarrow> js_error + jsval" where
  "groqReply_respond rt st raw =
     (if raw = [] then Inl (Error (''Groq returned empty response ('' @ decimal st @ '')''))
      else case JSON_parse rt raw of
        None \<Rightarrow> Inl (Error (''Groq returned invalid JSON ('' @ decimal st @ ''): '' @ take 200 raw))
      | Some json \<Rightarrow>
          if \<not> res_ok st then
            (case to_string rt (groqReply_error_value rt json) of
               Inl e \<Rightarrow> Inl e
             | Inr errorMessage \<Rightarrow>
                 Inl (Error (''Groq error ('' @ decimal st @ ''): '' @ errorMessage)))
          else
            (let text = js_or (groq_content json) (JStr [])
             in Inr (js_or text (JStr ''No response from Groq.''))))"

definition groqReply :: "js_runtime \<Rightarrow> process_env \<Rightarrow> network \<Rightarrow> string \<Rightarrow> jsval traced" where
  "groqReply rt env net prompt =
     (case NEXT_PUBLIC_GROQ_API_KEY env of
        None \<Rightarrow> ([], Inl (Error ''Missing NEXT_PUBLIC_GROQ_API_KEY''))
      | Some key \<Rightarrow>
          if key = [] then ([], Inl (Error ''Missing NEXT_PUBLIC_GROQ_API_KEY''))
          else
            (let rq = groqReply_request rt key prompt
             in ([rq],
                 case fetch_text net rq of
                   Inl e \<Rightarrow> Inl e
                 | Inr (st, raw) \<Rightarrow> groqReply_respond rt st raw)))"

section \<open>Vocabulary of the properties\<close>

text \<open>
  A \<^verbatim>\<open>ListedModel\<close> as the source's type has it: an object whose \<^verbatim>\<open>name\<close> is a string.
  The capability list is optional.
\<close>

definition is_ListedModel :: "jsval \<Rightarrow> bool" where
  "is_ListedModel m = is_string (own_prop m ''name'')"

definition name_of :: "jsval \<Rightarrow> string" where
  "name_of m = string_of (own_prop m ''name'')"

text \<open>The model advertises \<^verbatim>\<open>generateContent\<close>.\<close>

definition capable :: "jsval \<Rightarrow> bool" where
  "capable m =
     (case own_prop m ''supportedGenerationMethods'' of
        JArr xs \<Rightarrow> JStr ''generateContent'' \<in> set xs
      | _ \<Rightarrow> False)"

text \<open>The tier of a name, letters compared without regard to case.\<close>

definition tier :: "string \<Rightarrow> nat" where
  "tier name =
     (if sublist ''flash'' (toLowerCase name) then 1
      else if sublist ''pro'' (toLowerCase name) then 2 else 3)"

text \<open>
  The selection as the specification words it: the tier of a name that contains \<^verbatim>\<open>flash\<close>
  is 1, of one that contains \<^verbatim>\<open>pro\<close> 2, of any other 3; the capable models are ranked by
  tier, ties in listing order, and the first is taken.
\<close>

definition spec_tier :: "string \<Rightarrow> nat" where
  "spec_tier name = (if sublist ''flash'' name then 1 else if sublist ''pro'' name then 2 else 3)"

definition spec_select :: "jsval list \<Rightarrow> jsval option" where
  "spec_select models =
     (case sort_key (\<lambda>m. spec_tier (name_of m)) (filter capable models) of
        [] \<Rightarrow> None
      | m # _ \<Rightarrow> Some m)"

text \<open>The two envelopes of a reply body.\<close>

definition is_NormalizedError :: "jsval \<Rightarrow> bool" where
  "is_NormalizedError b =
     (is_string (own_prop b ''error'') \<and> own_prop b ''text'' = JUndefined
      \<and> own_prop b ''provider'' = JUndefined)"

definition is_NormalizedResult :: "jsval \<Rightarrow> bool" where
  "is_NormalizedResult b =
     (own_prop b ''error'' = JUndefined \<and> own_prop b ''text'' \<noteq> JUndefined
      \<and> is_string (own_prop b ''provider''))"

text \<open>An outbound call to the \<^verbatim>\<open>v1beta\<close> version of the Gemini API.\<close>

definition targets_v1beta :: "out_request \<Rightarrow> bool" where
  "targets_v1beta rq = prefix ''https://generativelanguage.googleapis.com/v1beta/'' (rq_url rq)"

section \<open>A stub platform\<close>

text \<open>
  A JSON codec cut down to the bodies of the scenarios below; on them it agrees with the
  real one.
\<close>

definition stub_parse :: "string \<Rightarrow> jsval option" where
  "stub_parse raw =
     (if raw = ''{\"choices\":[{\"message\":{\"content\":\"Nilgiri College offers...\"}}]}'' then
        Some (JObj [(''choices'',
                JArr [JObj [(''message'', JObj [(''content'', JStr ''Nilgiri College offers...'')])]])])
      else if raw = ''{\"choices\":[]}'' then Some (JObj [(''choices'', JArr [])])
      else if raw = ''{\"error\":\"quota\"}'' then Some (JObj [(''error'', JStr ''quota'')])
      else if raw = ''{\"models\":[{\"name\":\"models/x-flash\"}]}'' then
        Some (JObj [(''models'', JArr [JObj [(''name'', JStr ''models/x-flash'')]])])
      else if raw = ''{\"models\":[{\"name\":\"models/y-pro\",\"supportedGenerationMethods\":[\"generateContent\"]}]}'' then
        Some (JObj [(''models'',
                JArr [JObj [(''name'', JStr ''models/y-pro''),
                            (''supportedGenerationMethods'', JArr [JStr ''generateContent''])]])])
      else if raw = ''{\"models\":[null]}'' then Some (JObj [(''models'', JArr [JNull])])
      else None)"

definition stub_stringify :: "jsval \<Rightarrow> string" where
  "stub_stringify v =
     (if v = JObj [(''error'', JStr ''quota'')] then ''{\"error\":\"quota\"}'' else ''{}'')"

definition stub_runtime :: js_runtime where
  "stub_runtime =
     \<lparr>JSON_parse = stub_parse,
      JSON_stringify = stub_stringify,
      Number_toString = (\<lambda>n. ''0''),
      encodeURIComponent = (\<lambda>s. s),
      TypeError_message = (\<lambda>f. ''type error'')\<rparr>"

text \<open>A runtime for bodies that are not JSON at all.\<close>

definition no_json_runtime :: js_runtime where
  "no_json_runtime = stub_runtime\<lparr>JSON_parse := (\<lambda>raw. None)\<rparr>"

definition stub_env :: process_env where
  "stub_env =
     \<lparr>GROQ_API_KEY = Some ''gsk-test'',
      GEMINI_API_KEY = Some ''gem-test'',
      NEXT_PUBLIC_GROQ_API_KEY = Some ''pub-test''\<rparr>"

text \<open>An environment with no credential at all.\<close>

definition empty_env :: process_env where
  "empty_env = \<lparr>GROQ_API_KEY = None, GEMINI_API_KEY = None, NEXT_PUBLIC_GROQ_API_KEY = None\<rparr>"

text \<open>A model entry with a name and a capability list.\<close>

definition model_entry :: "string \<Rightarrow> string list \<Rightarrow> jsval" where
  "model_entry name methods =
     JObj [(''name'', JStr name), (''supportedGenerationMethods'', JArr (map JStr methods))]"

text \<open>
  The upstream of the specification's scenario: \<^verbatim>\<open>v1\<close> lists one model that cannot generate,
  \<^verbatim>\<open>v1beta\<close> one that can.
\<close>

definition two_version_upstream :: network where
  "two_version_upstream rq =
     (if targets_v1beta rq then
        Resolves 200
          (Inr ''{\"models\":[{\"name\":\"models/y-pro\",\"supportedGenerationMethods\":[\"generateContent\"]}]}'')
      else Resolves 200 (Inr ''{\"models\":[{\"name\":\"models/x-flash\"}]}''))"

text \<open>An upstream that lists one capable model and drops every other connection.\<close>

definition listing_only_upstream :: network where
  "listing_only_upstream rq =
     (if rq_method rq = ''GET'' then
        Resolves 200
          (Inr ''{\"models\":[{\"name\":\"models/y-pro\",\"supportedGenerationMethods\":[\"generateContent\"]}]}'')
      else Rejects (JsError ''TypeError'' ''fetch failed''))"

text \<open>
  An upstream whose \<^verbatim>\<open>v1\<close> listing cannot be reached, whose \<^verbatim>\<open>v1beta\<close> listing holds one capable
  model, and which drops the generation call.
\<close>

definition beta_only_upstream :: network where
  "beta_only_upstream rq =
     (if rq_method rq = ''GET'' \<and> targets_v1beta rq then
        Resolves 200
          (Inr ''{\"models\":[{\"name\":\"models/y-pro\",\"supportedGenerationMethods\":[\"generateContent\"]}]}'')
      else Rejects (JsError ''TypeError'' ''fetch failed''))"

text \<open>An upstream whose listing holds \<^verbatim>\<open>null\<close> in place of a model.\<close>

definition null_listing_upstream :: network where
  "null_listing_upstream rq = Resolves 200 (Inr ''{\"models\":[null]}'')"

section \<open>Helper facts\<close>

subsection \<open>Numbers in messages\<close>

lemma decimal_200: "decimal 200 = ''200''"
  by (simp add: decimal.simps digit_char_def)

lemma decimal_429: "decimal 429 = ''429''"
  by (simp add: decimal.simps digit_char_def)

lemma decimal_0: "decimal 0 = ''0''"
  by (simp add: decimal.simps digit_char_def)

lemma decimal_Suc_0: "decimal (Suc 0) = ''1''"
  by (simp add: decimal.simps digit_char_def)

subsection \<open>Each call site, from the outcome of its call\<close>

lemma groq_POST_resolves:
  assumes "opt_get body ''prompt'' = JStr p" and "p \<noteq> []"
    and "GROQ_API_KEY env = Some key" and "key \<noteq> []"
    and "net (groq_request rt key p) = Resolves st (Inr raw)"
  shows "groq_POST rt env net (Some body) =
           ([groq_request rt key p],
            case groq_respond rt st raw of
              Inl e \<Rightarrow> route_failed ''Groq route failed'' e
            | Inr r \<Rightarrow> r)"
  using assms
  by (simp add: groq_POST_def groq_try_def fetch_text_def split: sum.splits)

lemma groq_POST_rejects:
  assumes "opt_get body ''prompt'' = JStr p" and "p \<noteq> []"
    and "GROQ_API_KEY env = Some key" and "key \<noteq> []"
    and "net (groq_request rt key p) = Rejects e"
  shows "groq_POST rt env net (Some body) =
           ([groq_request rt key p], route_failed ''Groq route failed'' e)"
  using assms
  by (simp add: groq_POST_def groq_try_def fetch_text_def)

lemma gemini_generate_resolves:
  assumes "net (generate_request rt apiKey v (strip_namespace name) prompt) = Resolves st (Inr raw)"
  shows "gemini_generate rt net apiKey prompt v (JStr name) =
           ([generate_request rt apiKey v (strip_namespace name) prompt],
            gemini_respond rt v (strip_namespace name) st raw)"
  using assms
  by (simp add: gemini_generate_def bareModel_of_def fetch_text_def)

lemma gemini_generate_rejects:
  assumes "net (generate_request rt apiKey v (strip_namespace name) prompt) = Rejects e"
  shows "gemini_generate rt net apiKey prompt v (JStr name) =
           ([generate_request rt apiKey v (strip_namespace name) prompt], Inl e)"
  using assms
  by (simp add: gemini_generate_def bareModel_of_def fetch_text_def)

lemma aiReply_resolves:
  assumes "net (aiReply_request rt prompt provider) = Resolves st (Inr raw)"
  shows "aiReply rt net prompt provider =
           ([aiReply_request rt prompt provider], aiReply_respond rt provider st raw)"
  using assms by (simp add: aiReply_def)

lemma aiReply_rejects:
  assumes "net (aiReply_request rt prompt provider) = Rejects e"
  shows "aiReply rt net prompt provider =
           ([aiReply_request rt prompt provider],
            Inl (Error (''Failed to connect to '' @ provider_tag provider @ '': ''
                        @ (if err_message e \<noteq> [] then err_message e else ''Network error''))))"
  using assms by (simp add: aiReply_def)

lemma groqReply_resolves:
  assumes "NEXT_PUBLIC_GROQ_API_KEY env = Some key" and "key \<noteq> []"
    and "net (groqReply_request rt key prompt) = Resolves st (Inr raw)"
  shows "groqReply rt env net prompt =
           ([groqReply_request rt key prompt], groqReply_respond rt st raw)"
  using assms by (simp add: groqReply_def fetch_text_def)

lemma groqReply_rejects:
  assumes "NEXT_PUBLIC_GROQ_API_KEY env = Some key" and "key \<noteq> []"
    and "net (groqReply_request rt key prompt) = Rejects e"
  shows "groqReply rt env net prompt = ([groqReply_request rt key prompt], Inl e)"
  using assms by (simp add: groqReply_def fetch_text_def)

lemma listModels_calls: "fst (listModels rt net apiKey v) = [list_request rt apiKey v]"
  by (simp add: listModels_def)

lemma listModels_rejects:
  assumes "net (list_request rt apiKey v) = Rejects e"
  shows "listModels rt net apiKey v =
           ([list_request rt apiKey v],
            \<lparr>l_models = [],
             l_error = Some (''ListModels fetch failed for '' @ version_tag v @ '': ''
                             @ (if err_message e \<noteq> [] then err_message e else error_to_string e))\<rparr>)"
  using assms by (simp add: listModels_def listModels_try_def fetch_text_def)

lemma listModels_invalid_json:
  assumes "net (list_request rt apiKey v) = Resolves st (Inr raw)"
    and "raw \<noteq> []" and "JSON_parse rt raw = None"
  shows "listModels rt net apiKey v =
           ([list_request rt apiKey v],
            \<lparr>l_models = [],
             l_error = Some (''ListModels invalid JSON ('' @ decimal st @ '') for ''
                             @ version_tag v @ '': '' @ take 120 raw)\<rparr>)"
  using assms by (simp add: listModels_def listModels_try_def fetch_text_def)

lemma listModels_api_error:
  assumes "net (list_request rt apiKey v) = Resolves st (Inr raw)"
    and "raw \<noteq> []" and "JSON_parse rt raw = Some data" and "\<not> res_ok st"
    and "to_string rt (list_error_value rt data) = Inr msg"
  shows "listModels rt net apiKey v =
           ([list_request rt apiKey v],
            \<lparr>l_models = [],
             l_error = Some (''ListModels API error ('' @ decimal st @ '') for ''
                             @ version_tag v @ '': '' @ msg)\<rparr>)"
  using assms by (simp add: listModels_def listModels_try_def fetch_text_def)

lemma listModels_listed:
  assumes "net (list_request rt apiKey v) = Resolves st (Inr raw)"
    and "raw \<noteq> []" and "JSON_parse rt raw = Some (JObj [(''models'', JArr ms)])" and "res_ok st"
  shows "listModels rt net apiKey v =
           ([list_request rt apiKey v], \<lparr>l_models = ms, l_error = None\<rparr>)"
  using assms by (simp add: listModels_def listModels_try_def fetch_text_def get_prop_def)

lemma listModels_nonempty_no_error:
  assumes "l_models (snd (listModels rt net apiKey v)) \<noteq> []"
  shows "l_error (snd (listModels rt net apiKey v)) = None"
  using assms
  by (auto simp add: listModels_def listModels_try_def split: sum.splits prod.splits if_splits
      option.splits)

subsection \<open>The two envelopes\<close>

lemma error_body_envelope:
  "is_NormalizedError (error_body msg) \<and> \<not> is_NormalizedResult (error_body msg)"
  by (simp add: is_NormalizedError_def is_NormalizedResult_def error_body_def)

lemma route_failed_envelope:
  "is_NormalizedError (reply_body (route_failed fb e))
   \<and> \<not> is_NormalizedResult (reply_body (route_failed fb e))"
  by (simp add: route_failed_def NextResponse_json_def error_body_envelope)

lemma groq_respond_envelope:
  assumes "groq_respond rt st raw = Inr r"
  shows "is_NormalizedError (reply_body r) \<noteq> is_NormalizedResult (reply_body r)"
proof -
  have ok: "is_NormalizedResult (JObj [(''text'', t), (''provider'', JStr ''groq'')])
            \<and> \<not> is_NormalizedError (JObj [(''text'', t), (''provider'', JStr ''groq'')])"
    if "truthy t" for t
    using that by (auto simp add: is_NormalizedError_def is_NormalizedResult_def)
  show ?thesis
    using assms ok
    by (auto simp add: groq_respond_def NextResponse_json_def error_body_envelope Let_def
        split: if_splits option.splits sum.splits)
qed

lemma gemini_respond_envelope:
  assumes "gemini_respond rt v bare st raw = Inr r"
  shows "is_NormalizedError (reply_body r) \<noteq> is_NormalizedResult (reply_body r)"
proof -
  have ok: "is_NormalizedResult (JObj [(''text'', JStr a), (''provider'', JStr ''gemini''),
               (''model'', JStr bare), (''version'', JStr (version_tag v))])
            \<and> \<not> is_NormalizedError (JObj [(''text'', JStr a), (''provider'', JStr ''gemini''),
               (''model'', JStr bare), (''version'', JStr (version_tag v))])" for a
    by (simp add: is_NormalizedError_def is_NormalizedResult_def)
  show ?thesis
    using assms ok
    by (auto simp add: gemini_respond_def NextResponse_json_def error_body_envelope
        split: if_splits option.splits sum.splits)
qed

lemma no_model_reply_envelope:
  assumes "no_model_reply rt a b = Inr r"
  shows "is_NormalizedError (reply_body r) \<noteq> is_NormalizedResult (reply_body r)"
  using assms
  by (auto simp add: no_model_reply_def NextResponse_json_def error_body_envelope Let_def
      split: sum.splits)

lemma gemini_generate_envelope:
  assumes "gemini_generate rt net apiKey prompt v name = (calls, Inr r)"
  shows "is_NormalizedError (reply_body r) \<noteq> is_NormalizedResult (reply_body r)"
  using assms gemini_respond_envelope
  by (auto simp add: gemini_generate_def Let_def split: sum.splits prod.splits)

lemma gemini_discover_envelope:
  assumes "gemini_discover rt net apiKey prompt = (calls, Inr r)"
  shows "is_NormalizedError (reply_body r) \<noteq> is_NormalizedResult (reply_body r)"
  using assms gemini_generate_envelope no_model_reply_envelope
  by (auto simp add: gemini_discover_def Let_def split: sum.splits prod.splits option.splits)

lemma groq_try_envelope:
  assumes "groq_try rt env net req = (calls, Inr r)"
  shows "is_NormalizedError (reply_body r) \<noteq> is_NormalizedResult (reply_body r)"
  using assms groq_respond_envelope
  by (auto simp add: groq_try_def Let_def NextResponse_json_def error_body_envelope
      split: option.splits if_splits sum.splits prod.splits)

lemma gemini_try_envelope:
  assumes "gemini_try rt env net req = (calls, Inr r)"
  shows "is_NormalizedError (reply_body r) \<noteq> is_NormalizedResult (reply_body r)"
  using assms gemini_discover_envelope
  by (auto simp add: gemini_try_def Let_def NextResponse_json_def error_body_envelope
      split: option.splits if_splits)

subsection \<open>Stable sorting\<close>

lemma insort_key_agree:
  assumes "f x = g x" and "\<forall>y\<in>set ys. f y = g y"
  shows "insort_key f x ys = insort_key g x ys"
  using assms by (induction ys) auto

lemma sort_key_agree:
  assumes "\<forall>x\<in>set xs. f x = g x"
  shows "sort_key f xs = sort_key g xs"
  using assms
proof (induction xs)
  case Nil
  then show ?case by simp
next
  case (Cons a xs)
  then have "sort_key f xs = sort_key g xs" by simp
  moreover have "insort_key f a (sort_key g xs) = insort_key g a (sort_key g xs)"
    using Cons.prems by (intro insort_key_agree) auto
  ultimately show ?case by simp
qed

lemma sort_key_short: "length xs < 2 \<Longrightarrow> sort_key f xs = xs"
proof (cases xs)
  case Nil
  then show ?thesis by simp
next
  case (Cons a ys)
  assume "length xs < 2"
  with Cons have "ys = []" by simp
  with Cons show ?thesis by simp
qed

text \<open>The head of a stable sort is the earliest element among those of least key.\<close>

lemma sort_key_head:
  assumes "sort_key f xs = m # rest"
  shows "\<exists>pre post. xs = pre @ m # post
           \<and> (\<forall>x\<in>set pre. f m < f x) \<and> (\<forall>x\<in>set post. f m \<le> f x)"
  using assms
proof (induction xs arbitrary: m rest)
  case Nil
  then show ?case by simp
next
  case (Cons a xs)
  show ?case
  proof (cases "sort_key f xs")
    case Nil
    then have "xs = []"
      by (metis length_sort length_0_conv)
    with Cons.prems have "m = a" by simp
    with \<open>xs = []\<close> show ?thesis by (intro exI [of _ "[]"]) simp
  next
    case (Cons y ys)
    then obtain pre post where
      xs: "xs = pre @ y # post"
      and pre: "\<forall>x\<in>set pre. f y < f x"
      and post: "\<forall>x\<in>set post. f y \<le> f x"
      using Cons.IH by blast
    show ?thesis
    proof (cases "f a \<le> f y")
      case True
      with Cons Cons.prems have "m = a" by simp
      moreover have "\<forall>x\<in>set xs. f a \<le> f x"
        using xs pre post True by (auto intro: order_trans less_imp_le)
      ultimately show ?thesis by (intro exI [of _ "[]"] exI [of _ xs]) simp
    next
      case False
      with Cons Cons.prems have "m = y" by simp
      then show ?thesis
        using xs pre post False
        by (intro exI [of _ "a # pre"] exI [of _ post]) auto
    qed
  qed
qed

subsection \<open>Choosing among listed models\<close>

lemma ListedModel_not_nullish: "is_ListedModel m \<Longrightarrow> \<not> nullish m"
  by (cases m) (simp_all add: is_ListedModel_def)

lemma supportsGenerate_capable:
  "\<not> nullish m \<Longrightarrow> supportsGenerate rt m = Inr (capable m)"
  by (simp add: supportsGenerate_def get_prop_def capable_def)

lemma supportsGenerate_True:
  "supportsGenerate rt m = Inr True \<Longrightarrow> capable m"
  by (auto simp add: supportsGenerate_def get_prop_def capable_def split: if_splits)

lemma filter_throwing_filter:
  assumes "\<forall>m\<in>set ms. \<not> nullish m"
  shows "filter_throwing (supportsGenerate rt) ms = Inr (filter capable ms)"
  using assms by (induction ms) (simp_all add: supportsGenerate_capable)

lemma filter_throwing_set:
  assumes "filter_throwing p ms = Inr fs"
  shows "set fs \<subseteq> {m \<in> set ms. p m = Inr True}"
  using assms
proof (induction ms arbitrary: fs)
  case Nil
  then show ?case by simp
next
  case (Cons a ms)
  then show ?case
    by (auto split: sum.splits if_splits)
qed

lemma ListedModel_byPriority:
  "is_ListedModel m \<Longrightarrow> byPriority rt (own_prop m ''name'') = Inr (tier (name_of m))"
  by (cases "own_prop m ''name''")
    (simp_all add: is_ListedModel_def byPriority_def tier_def name_of_def)

lemma map_throwing_total:
  assumes "\<forall>x\<in>set xs. f x = Inr (g x)"
  shows "map_throwing f xs = Inr (map g xs)"
  using assms by (induction xs) simp_all

lemma sort_by_priority_ListedModels:
  assumes "\<forall>m\<in>set fs. is_ListedModel m"
  shows "sort_by_priority rt fs = Inr (sort_key (\<lambda>m. tier (name_of m)) fs)"
proof (cases "length fs < 2")
  case True
  then show ?thesis by (simp add: sort_by_priority_def sort_key_short)
next
  case False
  have "map_throwing (\<lambda>m. byPriority rt (own_prop m ''name'')) fs
          = Inr (map (\<lambda>m. tier (name_of m)) fs)"
    using assms by (intro map_throwing_total) (simp add: ListedModel_byPriority)
  moreover have "sort_key (priority_of rt) fs = sort_key (\<lambda>m. tier (name_of m)) fs"
    using assms by (intro sort_key_agree) (simp add: priority_of_def ListedModel_byPriority)
  ultimately show ?thesis
    using False by (simp add: sort_by_priority_def)
qed

lemma sort_by_priority_set:
  assumes "sort_by_priority rt fs = Inr ranked"
  shows "set ranked = set fs"
  using assms by (auto simp add: sort_by_priority_def split: if_splits sum.splits)

lemma pick_ListedModels:
  assumes "\<forall>m\<in>set models. is_ListedModel m"
  shows "pickGenerateContentModel rt models =
           Inr (case sort_key (\<lambda>m. tier (name_of m)) (filter capable models) of
                  [] \<Rightarrow> None | m # _ \<Rightarrow> Some m)"
proof -
  have "filter_throwing (supportsGenerate rt) models = Inr (filter capable models)"
    using assms by (intro filter_throwing_filter) (simp add: ListedModel_not_nullish)
  moreover have "sort_by_priority rt (filter capable models)
                   = Inr (sort_key (\<lambda>m. tier (name_of m)) (filter capable models))"
    using assms by (intro sort_by_priority_ListedModels) simp
  ultimately show ?thesis by (simp add: pickGenerateContentModel_def)
qed

lemma pick_Some_capable:
  assumes "pickGenerateContentModel rt models = Inr (Some m)"
  shows "capable m \<and> m \<in> set models"
proof -
  from assms obtain fs ranked where
    fs: "filter_throwing (supportsGenerate rt) models = Inr fs"
    and ranked: "sort_by_priority rt fs = Inr ranked"
    and m: "m \<in> set ranked"
    by (auto simp add: pickGenerateContentModel_def split: sum.splits list.splits)
  from ranked m have "m \<in> set fs" by (simp add: sort_by_priority_set)
  with filter_throwing_set [OF fs] have "m \<in> set models" "supportsGenerate rt m = Inr True"
    by auto
  then show ?thesis by (simp add: supportsGenerate_True)
qed

lemma pick_None_none_capable:
  assumes "\<forall>m\<in>set models. \<not> nullish m" and "\<forall>m\<in>set models. \<not> capable m"
  shows "pickGenerateContentModel rt models = Inr None"
proof -
  have "filter capable models = []" using assms(2) by (induction models) simp_all
  then show ?thesis
    using filter_throwing_filter [OF assms(1), of rt]
    by (simp add: pickGenerateContentModel_def sort_by_priority_def)
qed

lemma pick_Nil: "pickGenerateContentModel rt [] = Inr None"
  by (simp add: pickGenerateContentModel_def sort_by_priority_def)

lemma pick_single:
  assumes "\<not> nullish m" and "capable m"
  shows "pickGenerateContentModel rt [m] = Inr (Some m)"
  using assms
  by (simp add: pickGenerateContentModel_def sort_by_priority_def supportsGenerate_capable)

subsection \<open>Discovery\<close>

lemma list_V1_not_v1beta: "\<not> targets_v1beta (list_request rt apiKey V1)"
  by (simp add: targets_v1beta_def list_request_def)

lemma list_V1beta_v1beta: "targets_v1beta (list_request rt apiKey V1beta)"
  by (simp add: targets_v1beta_def list_request_def)

lemma list_V1beta_not_V1: "list_request rt apiKey V1beta \<noteq> list_request rt apiKey V1"
  by (simp add: list_request_def)

lemma generate_V1_not_v1beta: "\<not> targets_v1beta (generate_request rt apiKey V1 bare prompt)"
  by (simp add: targets_v1beta_def generate_request_def)

lemma gemini_generate_calls:
  "fst (gemini_generate rt net apiKey prompt v name) = []
   \<or> (\<exists>bare. fst (gemini_generate rt net apiKey prompt v name)
               = [generate_request rt apiKey v bare prompt])"
  by (auto simp add: gemini_generate_def Let_def split: sum.splits)

lemma gemini_discover_v1_calls:
  assumes "l_models (snd (listModels rt net apiKey V1)) \<noteq> []"
  shows "\<forall>rq\<in>set (fst (gemini_discover rt net apiKey prompt)). \<not> targets_v1beta rq"
proof -
  have gen: "\<not> targets_v1beta rq"
    if "gemini_generate rt net apiKey prompt V1 name = (calls, r)" and "rq \<in> set calls"
    for name calls r rq
    using that gemini_generate_calls [of rt net apiKey prompt V1 name]
    by (auto simp add: generate_V1_not_v1beta)
  obtain l where l: "listModels rt net apiKey V1 = ([list_request rt apiKey V1], l)"
    by (metis listModels_calls prod.collapse)
  with assms have "l_models l \<noteq> []" by simp
  then show ?thesis
    using gen
    by (auto simp add: gemini_discover_def l Let_def pick_Nil list_V1_not_v1beta
        split: sum.splits option.splits prod.splits)
qed

lemma gemini_discover_chosen_V1:
  assumes "listModels rt net apiKey V1 = ([list_request rt apiKey V1], l)"
    and "pickGenerateContentModel rt (l_models l) = Inr (Some m)"
  shows "gemini_discover rt net apiKey prompt =
           (list_request rt apiKey V1 # fst (gemini_generate rt net apiKey prompt V1 (own_prop m ''name'')),
            snd (gemini_generate rt net apiKey prompt V1 (own_prop m ''name'')))"
proof -
  have "l_models l \<noteq> []"
    using assms(2) pick_Some_capable by fastforce
  then show ?thesis
    using assms by (simp add: gemini_discover_def Let_def split: prod.splits)
qed

lemma gemini_discover_chosen_V1beta:
  assumes "listModels rt net apiKey V1 = ([list_request rt apiKey V1], l1)"
    and "l_models l1 = []"
    and "listModels rt net apiKey V1beta = ([list_request rt apiKey V1beta], l2)"
    and "pickGenerateContentModel rt (l_models l2) = Inr (Some m)"
  shows "gemini_discover rt net apiKey prompt =
           (list_request rt apiKey V1 # list_request rt apiKey V1beta
              # fst (gemini_generate rt net apiKey prompt V1beta (own_prop m ''name'')),
            snd (gemini_generate rt net apiKey prompt V1beta (own_prop m ''name'')))"
  using assms by (simp add: gemini_discover_def Let_def pick_Nil split: prod.splits)

lemma element_strings_JStr: "element_strings rt (map (JStr \<circ> f) xs) = Inr (map f xs)"
  by (induction xs) simp_all

lemma names_of_ListedModels:
  assumes "\<forall>m\<in>set ms. is_ListedModel m"
  shows "map_throwing (\<lambda>m. get_prop rt m ''name'') ms = Inr (map (JStr \<circ> name_of) ms)"
proof -
  have "get_prop rt m ''name'' = Inr (JStr (name_of m))" if "is_ListedModel m" for m
    using that ListedModel_not_nullish [OF that]
    by (cases "own_prop m ''name''") (simp_all add: get_prop_def is_ListedModel_def name_of_def)
  then have "map_throwing (\<lambda>m. get_prop rt m ''name'') ms = Inr (map (\<lambda>m. JStr (name_of m)) ms)"
    using assms by (intro map_throwing_total) simp
  then show ?thesis by (simp add: comp_def)
qed

lemma reason_models_ListedModels:
  assumes "\<forall>m\<in>set (l_models l). is_ListedModel m"
  shows "reason_models rt tag l =
           Inr (tag @ '' models ('' @ decimal (length (l_models l)) @ ''): ''
                @ (if join_with '', '' (map name_of (l_models l)) = [] then ''none''
                   else join_with '', '' (map name_of (l_models l))))"
  using assms
  by (simp add: reason_models_def names_of_ListedModels js_join_def element_strings_JStr)

lemma no_model_reply_v1_only:
  assumes "\<forall>m\<in>set (l_models l). is_ListedModel m" and "l_error l = None"
  shows "no_model_reply rt l \<lparr>l_models = [], l_error = None\<rparr> =
           Inr (NextResponse_json
                  (error_body
                     (NO_MODEL_PREFIX @ ''v1 models ('' @ decimal (length (l_models l)) @ ''): ''
                      @ (if join_with '', '' (map name_of (l_models l)) = [] then ''none''
                         else join_with '', '' (map name_of (l_models l)))
                      @ '' | v1beta models (0): none''))
                  502)"
proof -
  have "reason_models rt ''v1beta'' \<lparr>l_models = [], l_error = None\<rparr> = Inr ''v1beta models (0): none''"
    by (simp add: reason_models_def js_join_def join_with_def decimal_0)
  then show ?thesis
    using assms
    by (simp add: no_model_reply_def reason_models_ListedModels [OF assms(1)] reason_error_def
        join_with_def)
qed

section \<open>Discovery stops at a non-empty v1 listing\<close>

text \<open>
  C1. When the \<^verbatim>\<open>v1\<close> listing of a Gemini request returns a non-empty model set, no call of
  the request goes to \<^verbatim>\<open>v1beta\<close>; the \<^verbatim>\<open>v1beta\<close> listing in particular is never issued. If
  moreover the prompt and the key are there and none of the listed models (objects with a
  string name, as \<^verbatim>\<open>ListedModel\<close> has it) supports \<^verbatim>\<open>generateContent\<close>, the request ends after
  that one call with HTTP 502 and the aggregated message, which names the \<^verbatim>\<open>v1\<close> models and
  reports none for \<^verbatim>\<open>v1beta\<close>.
\<close>

theorem v1beta_skipped:
  assumes "GEMINI_API_KEY env = Some apiKey"
    and "l_models (snd (listModels rt net apiKey V1)) \<noteq> []"
  shows "(\<forall>rq\<in>set (fst (gemini_POST rt env net req)). \<not> targets_v1beta rq)
       \<and> list_request rt apiKey V1beta \<notin> set (fst (gemini_POST rt env net req))
       \<and> (opt_get body ''prompt'' = JStr p \<and> p \<noteq> [] \<and> apiKey \<noteq> []
          \<and> (\<forall>m\<in>set (l_models (snd (listModels rt net apiKey V1))).
                is_ListedModel m \<and> \<not> capable m) \<longrightarrow>
            gemini_POST rt env net (Some body) =
              ([list_request rt apiKey V1],
               NextResponse_json
                 (error_body
                    (NO_MODEL_PREFIX @ ''v1 models (''
                     @ decimal (length (l_models (snd (listModels rt net apiKey V1)))) @ ''): ''
                     @ (if join_with '', '' (map name_of (l_models (snd (listModels rt net apiKey V1)))) = []
                        then ''none''
                        else join_with '', ''
                               (map name_of (l_models (snd (listModels rt net apiKey V1)))))
                     @ '' | v1beta models (0): none''))
                 502))"
proof -
  obtain l where l: "listModels rt net apiKey V1 = ([list_request rt apiKey V1], l)"
    by (metis listModels_calls prod.collapse)
  with assms(2) have nonempty: "l_models l \<noteq> []" by simp
  have calls: "\<forall>rq\<in>set (fst (gemini_POST rt env net req)). \<not> targets_v1beta rq"
  proof -
    have "fst (gemini_POST rt env net req) = fst (gemini_try rt env net req)"
      by (simp add: gemini_POST_def split: prod.splits sum.splits)
    moreover have "fst (gemini_try rt env net req) = []
                   \<or> (\<exists>prompt. fst (gemini_try rt env net req)
                                 = fst (gemini_discover rt net apiKey prompt))"
      using assms(1) by (auto simp add: gemini_try_def Let_def split: option.splits)
    ultimately show ?thesis
      using gemini_discover_v1_calls [OF assms(2)] by auto
  qed
  moreover from calls have "list_request rt apiKey V1beta \<notin> set (fst (gemini_POST rt env net req))"
    using list_V1beta_v1beta by blast
  moreover have "gemini_POST rt env net (Some body) =
              ([list_request rt apiKey V1],
               NextResponse_json
                 (error_body
                    (NO_MODEL_PREFIX @ ''v1 models ('' @ decimal (length (l_models l)) @ ''): ''
                     @ (if join_with '', '' (map name_of (l_models l)) = [] then ''none''
                        else join_with '', '' (map name_of (l_models l)))
                     @ '' | v1beta models (0): none''))
                 502)"
    if valid: "opt_get body ''prompt'' = JStr p" "p \<noteq> []" "apiKey \<noteq> []"
      and ms: "\<forall>m\<in>set (l_models l). is_ListedModel m \<and> \<not> capable m"
  proof -
    have pick: "pickGenerateContentModel rt (l_models l) = Inr None"
      using ms by (intro pick_None_none_capable) (auto simp add: ListedModel_not_nullish)
    have "l_error l = None"
      using listModels_nonempty_no_error [OF assms(2)] l by simp
    then have reply: "no_model_reply rt l \<lparr>l_models = [], l_error = None\<rparr> =
           Inr (NextResponse_json
                  (error_body
                     (NO_MODEL_PREFIX @ ''v1 models ('' @ decimal (length (l_models l)) @ ''): ''
                      @ (if join_with '', '' (map name_of (l_models l)) = [] then ''none''
                         else join_with '', '' (map name_of (l_models l)))
                      @ '' | v1beta models (0): none''))
                  502)"
      using ms by (intro no_model_reply_v1_only) auto
    have "gemini_discover rt net apiKey p =
            ([list_request rt apiKey V1], no_model_reply rt l \<lparr>l_models = [], l_error = None\<rparr>)"
      using nonempty by (simp add: gemini_discover_def l Let_def pick pick_Nil)
    then show ?thesis
      using valid assms(1) by (simp add: gemini_POST_def gemini_try_def reply)
  qed
  ultimately show ?thesis using l by simp
qed

lemma two_version_v1_listing:
  "listModels stub_runtime two_version_upstream ''gem-test'' V1 =
     ([list_request stub_runtime ''gem-test'' V1],
      \<lparr>l_models = [JObj [(''name'', JStr ''models/x-flash'')]], l_error = None\<rparr>)"
proof -
  have "two_version_upstream (list_request stub_runtime ''gem-test'' V1)
          = Resolves 200 (Inr ''{\"models\":[{\"name\":\"models/x-flash\"}]}'')"
    by (simp add: two_version_upstream_def list_V1_not_v1beta)
  then show ?thesis
    by (rule listModels_listed) (simp_all add: stub_runtime_def stub_parse_def res_ok_def)
qed

text \<open>
  The scenario of the specification: \<^verbatim>\<open>v1\<close> lists only \<^verbatim>\<open>models/x-flash\<close>, which cannot
  generate; \<^verbatim>\<open>v1beta\<close> would list a capable \<^verbatim>\<open>models/y-pro\<close> and is not asked.
\<close>

theorem v1beta_skipped_witness:
  "gemini_POST stub_runtime stub_env two_version_upstream (Some (JObj [(''prompt'', JStr ''hi'')])) =
     ([list_request stub_runtime ''gem-test'' V1],
      NextResponse_json
        (error_body (NO_MODEL_PREFIX @ ''v1 models (1): models/x-flash | v1beta models (0): none''))
        502)
   \<and> list_request stub_runtime ''gem-test'' V1beta
       \<notin> set (fst (gemini_POST stub_runtime stub_env two_version_upstream
                      (Some (JObj [(''prompt'', JStr ''hi'')]))))"
  using v1beta_skipped [of stub_env "''gem-test''" stub_runtime two_version_upstream
      "Some (JObj [(''prompt'', JStr ''hi'')])" "JObj [(''prompt'', JStr ''hi'')]" "''hi''"]
  by (simp add: two_version_v1_listing stub_env_def opt_get_def is_ListedModel_def capable_def
      name_of_def join_with_def decimal_Suc_0 list_V1beta_not_V1)

section \<open>Model selection\<close>

text \<open>
  C2, as amended. For every list of models (objects with a string name), selection keeps the
  models whose \<^verbatim>\<open>supportedGenerationMethods\<close> include \<^verbatim>\<open>generateContent\<close>, ranks them by the
  tier of the name with its letters lower-cased (contains \<^verbatim>\<open>flash\<close>: 1, else contains \<^verbatim>\<open>pro\<close>: 2,
  else 3) and returns the earliest listed model of least tier, or nothing when no model is
  capable. Whatever the list holds, a selected model is one of the list and is capable. The
  list \<^verbatim>\<open>models/foo-pro\<close>, \<^verbatim>\<open>models/bar-flash\<close>, \<^verbatim>\<open>models/baz\<close>, all capable, gives
  \<^verbatim>\<open>models/bar-flash\<close>.
\<close>

theorem model_selection:
  "((\<forall>m\<in>set models. is_ListedModel m) \<longrightarrow>
     (\<exists>chosen. pickGenerateContentModel rt models = Inr chosen \<and>
        (case chosen of
           None \<Rightarrow> filter capable models = []
         | Some m \<Rightarrow>
             (\<exists>pre post. filter capable models = pre @ m # post
                \<and> (\<forall>x\<in>set pre. tier (name_of m) < tier (name_of x))
                \<and> (\<forall>x\<in>set post. tier (name_of m) \<le> tier (name_of x))))))
   \<and> (\<forall>m. pickGenerateContentModel rt models = Inr (Some m) \<longrightarrow> capable m \<and> m \<in> set models)
   \<and> pickGenerateContentModel rt
        [model_entry ''models/foo-pro'' [''generateContent''],
         model_entry ''models/bar-flash'' [''generateContent''],
         model_entry ''models/baz'' [''generateContent'']] =
      Inr (Some (model_entry ''models/bar-flash'' [''generateContent'']))"
proof -
  have ranked: "\<exists>chosen. pickGenerateContentModel rt models = Inr chosen \<and>
        (case chosen of
           None \<Rightarrow> filter capable models = []
         | Some m \<Rightarrow>
             (\<exists>pre post. filter capable models = pre @ m # post
                \<and> (\<forall>x\<in>set pre. tier (name_of m) < tier (name_of x))
                \<and> (\<forall>x\<in>set post. tier (name_of m) \<le> tier (name_of x))))"
    if wf: "\<forall>m\<in>set models. is_ListedModel m"
  proof (cases "sort_key (\<lambda>m. tier (name_of m)) (filter capable models)")
    case Nil
    then have "filter capable models = []"
      by (metis length_sort length_0_conv)
    with Nil show ?thesis by (simp add: pick_ListedModels [OF wf])
  next
    case (Cons m rest)
    from sort_key_head [OF Cons] Cons show ?thesis
      by (simp add: pick_ListedModels [OF wf])
  qed
  have never: "\<forall>m. pickGenerateContentModel rt models = Inr (Some m) \<longrightarrow> capable m \<and> m \<in> set models"
    using pick_Some_capable by blast
  have wf3: "\<forall>m\<in>set [model_entry ''models/foo-pro'' [''generateContent''],
          model_entry ''models/bar-flash'' [''generateContent''],
          model_entry ''models/baz'' [''generateContent'']]. is_ListedModel m"
    by (simp add: is_ListedModel_def model_entry_def)
  have example: "pickGenerateContentModel rt
         [model_entry ''models/foo-pro'' [''generateContent''],
          model_entry ''models/bar-flash'' [''generateContent''],
          model_entry ''models/baz'' [''generateContent'']] =
       Inr (Some (model_entry ''models/bar-flash'' [''generateContent'']))"
    unfolding pick_ListedModels [OF wf3]
    by (simp add: capable_def model_entry_def name_of_def tier_def toLowerCase_def lower_char_def
        sublist_code)
  from ranked never example show ?thesis by blast
qed

text \<open>
  A listing that exercises the filter, the folding of case and the order: the first entry
  cannot generate, the third is the only one of tier 1.
\<close>

theorem model_selection_witness:
  "pickGenerateContentModel stub_runtime
     [model_entry ''models/x-flash'' [''countTokens''],
      model_entry ''models/foo-pro'' [''generateContent''],
      model_entry ''models/Bar-Flash'' [''generateContent''],
      model_entry ''models/baz'' [''generateContent'']] =
     Inr (Some (model_entry ''models/Bar-Flash'' [''generateContent'']))
   \<and> capable (model_entry ''models/Bar-Flash'' [''generateContent''])"
proof -
  have wf: "\<forall>m\<in>set [model_entry ''models/x-flash'' [''countTokens''],
      model_entry ''models/foo-pro'' [''generateContent''],
      model_entry ''models/Bar-Flash'' [''generateContent''],
      model_entry ''models/baz'' [''generateContent'']]. is_ListedModel m"
    by (simp add: is_ListedModel_def model_entry_def)
  have "pickGenerateContentModel stub_runtime
     [model_entry ''models/x-flash'' [''countTokens''],
      model_entry ''models/foo-pro'' [''generateContent''],
      model_entry ''models/Bar-Flash'' [''generateContent''],
      model_entry ''models/baz'' [''generateContent'']] =
     Inr (Some (model_entry ''models/Bar-Flash'' [''generateContent'']))"
    unfolding pick_ListedModels [OF wf]
    by (simp add: capable_def model_entry_def name_of_def tier_def toLowerCase_def lower_char_def
        sublist_code)
  with model_selection [of "[model_entry ''models/x-flash'' [''countTokens''],
      model_entry ''models/foo-pro'' [''generateContent''],
      model_entry ''models/Bar-Flash'' [''generateContent''],
      model_entry ''models/baz'' [''generateContent'']]" stub_runtime]
  show ?thesis by blast
qed

text \<open>
  The specification's wording, a name that \<^emph>\<open>contains\<close> \<^verbatim>\<open>flash\<close>, fails on a name in capitals:
  the code folds the case and takes \<^verbatim>\<open>models/B-FLASH\<close> for a flash model, where the worded
  ranking puts \<^verbatim>\<open>models/a-pro\<close> first.
\<close>

theorem case_folding_counterexample:
  "pickGenerateContentModel stub_runtime
     [model_entry ''models/a-pro'' [''generateContent''],
      model_entry ''models/B-FLASH'' [''generateContent'']] =
     Inr (Some (model_entry ''models/B-FLASH'' [''generateContent'']))
   \<and> spec_select
       [model_entry ''models/a-pro'' [''generateContent''],
        model_entry ''models/B-FLASH'' [''generateContent'']] =
     Some (model_entry ''models/a-pro'' [''generateContent''])"
proof -
  have wf: "\<forall>m\<in>set [model_entry ''models/a-pro'' [''generateContent''],
      model_entry ''models/B-FLASH'' [''generateContent'']]. is_ListedModel m"
    by (simp add: is_ListedModel_def model_entry_def)
  have "pickGenerateContentModel stub_runtime
     [model_entry ''models/a-pro'' [''generateContent''],
      model_entry ''models/B-FLASH'' [''generateContent'']] =
     Inr (Some (model_entry ''models/B-FLASH'' [''generateContent'']))"
    unfolding pick_ListedModels [OF wf]
    by (simp add: capable_def model_entry_def name_of_def tier_def toLowerCase_def lower_char_def
        sublist_code)
  moreover have "spec_select
       [model_entry ''models/a-pro'' [''generateContent''],
        model_entry ''models/B-FLASH'' [''generateContent'']] =
     Some (model_entry ''models/a-pro'' [''generateContent''])"
    by (simp add: spec_select_def spec_tier_def capable_def model_entry_def name_of_def
        sublist_code)
  ultimately show ?thesis by simp
qed

section \<open>The Groq round trip\<close>

text \<open>
  C9. A request with a non-empty string prompt, a configured key and an upstream that
  answers HTTP 200 with the body \<^verbatim>\<open>{choices:[{message:{content: c}}]}\<close>, \<open>c\<close> a non-empty
  string, gets HTTP 200 with the body \<^verbatim>\<open>{text: c, provider: "groq"}\<close>, after one outbound call.
\<close>

theorem groq_round_trip:
  assumes "opt_get body ''prompt'' = JStr p" and "p \<noteq> []"
    and "GROQ_API_KEY env = Some key" and "key \<noteq> []"
    and "net (groq_request rt key p) = Resolves 200 (Inr raw)" and "raw \<noteq> []"
    and "JSON_parse rt raw =
           Some (JObj [(''choices'', JArr [JObj [(''message'', JObj [(''content'', JStr c)])]])])"
    and "c \<noteq> []"
  shows "groq_POST rt env net (Some body) =
           ([groq_request rt key p],
            NextResponse_json (JObj [(''text'', JStr c), (''provider'', JStr ''groq'')]) 200)"
  using assms
  by (simp add: groq_POST_def groq_try_def fetch_text_def groq_respond_def res_ok_def
      groq_content_def opt_get_def js_or_def)

text \<open>The scenario of the specification: the stub answers \<^verbatim>\<open>Nilgiri College offers...\<close>.\<close>

theorem groq_round_trip_witness:
  "groq_POST stub_runtime stub_env
     (\<lambda>rq. Resolves 200
        (Inr ''{\"choices\":[{\"message\":{\"content\":\"Nilgiri College offers...\"}}]}''))
     (Some (JObj [(''prompt'', JStr ''What courses are offered?'')])) =
   ([groq_request stub_runtime ''gsk-test'' ''What courses are offered?''],
    NextResponse_json
      (JObj [(''text'', JStr ''Nilgiri College offers...''), (''provider'', JStr ''groq'')]) 200)"
  using groq_round_trip [of "JObj [(''prompt'', JStr ''What courses are offered?'')]"
      "''What courses are offered?''" stub_env "''gsk-test''"
      "\<lambda>rq. Resolves 200
         (Inr ''{\"choices\":[{\"message\":{\"content\":\"Nilgiri College offers...\"}}]}'')"
      stub_runtime
      "''{\"choices\":[{\"message\":{\"content\":\"Nilgiri College offers...\"}}]}''"
      "''Nilgiri College offers...''"]
  by (simp add: opt_get_def stub_env_def stub_runtime_def stub_parse_def)

section \<open>The empty prompt\<close>

text \<open>
  C10. A request whose body has the prompt \<^verbatim>\<open>""\<close> is answered by both handlers with HTTP 400
  and \<^verbatim>\<open>{error: "Missing prompt"}\<close>, like a request without a prompt; nothing is sent upstream.
\<close>

theorem empty_prompt_rejected:
  assumes "opt_get body ''prompt'' = JStr []"
  shows "groq_POST rt env net (Some body) =
           ([], NextResponse_json (error_body ''Missing prompt'') 400)
         \<and> gemini_POST rt env net (Some body) =
           ([], NextResponse_json (error_body ''Missing prompt'') 400)"
  using assms by (simp add: groq_POST_def groq_try_def gemini_POST_def gemini_try_def)

theorem empty_prompt_rejected_witness:
  "groq_POST stub_runtime stub_env (\<lambda>rq. Resolves 200 (Inr ''{}''))
     (Some (JObj [(''prompt'', JStr [])])) =
     ([], NextResponse_json (error_body ''Missing prompt'') 400)
   \<and> gemini_POST stub_runtime stub_env (\<lambda>rq. Resolves 200 (Inr ''{}''))
     (Some (JObj [(''prompt'', JStr [])])) =
     ([], NextResponse_json (error_body ''Missing prompt'') 400)"
  using empty_prompt_rejected [of "JObj [(''prompt'', JStr [])]" stub_runtime stub_env
      "\<lambda>rq. Resolves 200 (Inr ''{}'')"]
  by (simp add: opt_get_def)

section \<open>A body that is not JSON\<close>

text \<open>
  C3, as amended. When the raw body of a response does not decode as JSON, the error message
  of the call site ends with the first 200 characters of the raw text and holds nothing else
  of it, at the Groq route, the Gemini generation call, \<^verbatim>\<open>aiReply\<close> and \<^verbatim>\<open>groqReply\<close>; the message
  that \<^verbatim>\<open>listModels\<close> records ends with the first 120 characters.
\<close>

theorem invalid_json_truncation:
  assumes "raw \<noteq> []" and "JSON_parse rt raw = None"
  shows "(opt_get body ''prompt'' = JStr p \<and> p \<noteq> [] \<and> GROQ_API_KEY env = Some key \<and> key \<noteq> []
          \<and> net (groq_request rt key p) = Resolves st (Inr raw) \<longrightarrow>
            groq_POST rt env net (Some body) =
              ([groq_request rt key p],
               NextResponse_json
                 (error_body (''Groq returned invalid JSON ('' @ decimal st @ ''): '' @ take 200 raw))
                 (status_or st 502)))
       \<and> (net (generate_request rt apiKey v (strip_namespace name) prompt) = Resolves st (Inr raw) \<longrightarrow>
            gemini_generate rt net apiKey prompt v (JStr name) =
              ([generate_request rt apiKey v (strip_namespace name) prompt],
               Inr (NextResponse_json
                      (error_body (''Gemini '' @ version_tag v @ ''/'' @ strip_namespace name
                                   @ '' returned invalid JSON ('' @ decimal st @ ''): '' @ take 200 raw))
                      (status_or st 502))))
       \<and> (net (aiReply_request rt prompt provider) = Resolves st (Inr raw) \<longrightarrow>
            aiReply rt net prompt provider =
              ([aiReply_request rt prompt provider],
               Inl (Error (provider_tag provider @ '' returned invalid JSON ('' @ decimal st @ ''): ''
                           @ take 200 raw))))
       \<and> (NEXT_PUBLIC_GROQ_API_KEY env = Some pkey \<and> pkey \<noteq> []
          \<and> net (groqReply_request rt pkey prompt) = Resolves st (Inr raw) \<longrightarrow>
            groqReply rt env net prompt =
              ([groqReply_request rt pkey prompt],
               Inl (Error (''Groq returned invalid JSON ('' @ decimal st @ ''): '' @ take 200 raw))))
       \<and> (net (list_request rt apiKey v) = Resolves st (Inr raw) \<longrightarrow>
            listModels rt net apiKey v =
              ([list_request rt apiKey v],
               \<lparr>l_models = [],
                l_error = Some (''ListModels invalid JSON ('' @ decimal st @ '') for ''
                                @ version_tag v @ '': '' @ take 120 raw)\<rparr>))"
  using assms
  by (simp add: groq_POST_resolves gemini_generate_resolves aiReply_resolves groqReply_resolves
      listModels_invalid_json groq_respond_def gemini_respond_def gemini_label_def
      aiReply_respond_def groqReply_respond_def)

text \<open>A body of 201 characters \<^verbatim>\<open>x\<close>, answered with status 200 to every call.\<close>

theorem invalid_json_truncation_witness:
  "groq_POST no_json_runtime stub_env (\<lambda>rq. Resolves 200 (Inr (replicate 201 (CHR ''x''))))
     (Some (JObj [(''prompt'', JStr ''hi'')])) =
     ([groq_request no_json_runtime ''gsk-test'' ''hi''],
      NextResponse_json
        (error_body (''Groq returned invalid JSON (200): '' @ replicate 200 (CHR ''x''))) 200)
   \<and> gemini_generate no_json_runtime (\<lambda>rq. Resolves 200 (Inr (replicate 201 (CHR ''x''))))
       ''gem-test'' ''hi'' V1 (JStr ''models/m'') =
     ([generate_request no_json_runtime ''gem-test'' V1 ''m'' ''hi''],
      Inr (NextResponse_json
             (error_body (''Gemini v1/m returned invalid JSON (200): '' @ replicate 200 (CHR ''x'')))
             200))
   \<and> aiReply no_json_runtime (\<lambda>rq. Resolves 200 (Inr (replicate 201 (CHR ''x'')))) ''hi'' Groq =
     ([aiReply_request no_json_runtime ''hi'' Groq],
      Inl (Error (''groq returned invalid JSON (200): '' @ replicate 200 (CHR ''x''))))
   \<and> groqReply no_json_runtime stub_env (\<lambda>rq. Resolves 200 (Inr (replicate 201 (CHR ''x''))))
       ''hi'' =
     ([groqReply_request no_json_runtime ''pub-test'' ''hi''],
      Inl (Error (''Groq returned invalid JSON (200): '' @ replicate 200 (CHR ''x''))))
   \<and> listModels no_json_runtime (\<lambda>rq. Resolves 200 (Inr (replicate 201 (CHR ''x''))))
       ''gem-test'' V1 =
     ([list_request no_json_runtime ''gem-test'' V1],
      \<lparr>l_models = [],
       l_error = Some (''ListModels invalid JSON (200) for v1: '' @ replicate 120 (CHR ''x''))\<rparr>)"
  using invalid_json_truncation [of "replicate 201 (CHR ''x'')" no_json_runtime
      "JObj [(''prompt'', JStr ''hi'')]" "''hi''" stub_env "''gsk-test''"
      "\<lambda>rq. Resolves 200 (Inr (replicate 201 (CHR ''x'')))" 200 "''gem-test''" V1 "''models/m''"
      "''hi''" Groq "''pub-test''"]
  by (simp add: no_json_runtime_def stub_runtime_def stub_env_def opt_get_def strip_namespace_def
      status_or_def decimal_200)

text \<open>
  At \<^verbatim>\<open>listModels\<close> the bound of 200 fails: of a body of 201 characters the message keeps 120, and
  the first 200 are not in it.
\<close>

theorem listModels_truncation_counterexample:
  "l_error (snd (listModels no_json_runtime
      (\<lambda>rq. Resolves 200 (Inr (replicate 201 (CHR ''x'')))) ''gem-test'' V1)) =
     Some (''ListModels invalid JSON (200) for v1: '' @ replicate 120 (CHR ''x''))
   \<and> \<not> sublist (take 200 (replicate 201 (CHR ''x'')))
         (''ListModels invalid JSON (200) for v1: '' @ replicate 120 (CHR ''x''))"
proof -
  have "\<not> sublist (take 200 (replicate 201 (CHR ''x'')))
         (''ListModels invalid JSON (200) for v1: '' @ replicate 120 (CHR ''x''))"
  proof
    assume "sublist (take 200 (replicate 201 (CHR ''x'')))
         (''ListModels invalid JSON (200) for v1: '' @ replicate 120 (CHR ''x''))"
    then have "length (take 200 (replicate 201 (CHR ''x'')))
       \<le> length (''ListModels invalid JSON (200) for v1: '' @ replicate 120 (CHR ''x''))"
      by (rule sublist_length_le)
    then show False by simp
  qed
  moreover have "l_error (snd (listModels no_json_runtime
      (\<lambda>rq. Resolves 200 (Inr (replicate 201 (CHR ''x'')))) ''gem-test'' V1)) =
     Some (''ListModels invalid JSON (200) for v1: '' @ replicate 120 (CHR ''x''))"
    by (simp add: listModels_def listModels_try_def fetch_text_def decimal_200
        no_json_runtime_def stub_runtime_def)
  ultimately show ?thesis by simp
qed

section \<open>A completion without content\<close>

text \<open>
  C4, as amended. After a successful HTTP call whose decoded body yields the empty string as
  answer text, the Groq route answers HTTP 500 with \<^verbatim>\<open>Groq response had no content\<close>, the Gemini
  generation call HTTP 500 with its \<^verbatim>\<open>response had no content\<close> message, and \<^verbatim>\<open>aiReply\<close> throws
  \<^verbatim>\<open>returned empty response\<close>: none of them returns a result. The direct call \<^verbatim>\<open>groqReply\<close>
  returns the placeholder \<^verbatim>\<open>No response from Groq.\<close> instead.
\<close>

theorem empty_content:
  assumes "res_ok st" and "raw \<noteq> []" and "JSON_parse rt raw = Some json"
  shows "(opt_get body ''prompt'' = JStr p \<and> p \<noteq> [] \<and> GROQ_API_KEY env = Some key \<and> key \<noteq> []
          \<and> net (groq_request rt key p) = Resolves st (Inr raw)
          \<and> js_or (groq_content json) (JStr []) = JStr [] \<longrightarrow>
            groq_POST rt env net (Some body) =
              ([groq_request rt key p],
               NextResponse_json (error_body ''Groq response had no content'') 500))
       \<and> (net (generate_request rt apiKey v (strip_namespace name) prompt) = Resolves st (Inr raw)
          \<and> gemini_answer rt json = Inr [] \<longrightarrow>
            gemini_generate rt net apiKey prompt v (JStr name) =
              ([generate_request rt apiKey v (strip_namespace name) prompt],
               Inr (NextResponse_json
                      (error_body (''Gemini '' @ version_tag v @ ''/'' @ strip_namespace name
                                   @ '' response had no content'')) 500)))
       \<and> (net (aiReply_request rt prompt provider) = Resolves st (Inr raw)
          \<and> \<not> nullish json \<and> \<not> truthy (own_prop json ''error'')
          \<and> \<not> truthy (own_prop json ''text'') \<longrightarrow>
            aiReply rt net prompt provider =
              ([aiReply_request rt prompt provider],
               Inl (Error (provider_tag provider @ '' returned empty response''))))
       \<and> (NEXT_PUBLIC_GROQ_API_KEY env = Some pkey \<and> pkey \<noteq> []
          \<and> net (groqReply_request rt pkey prompt) = Resolves st (Inr raw)
          \<and> js_or (groq_content json) (JStr []) = JStr [] \<longrightarrow>
            groqReply rt env net prompt =
              ([groqReply_request rt pkey prompt], Inr (JStr ''No response from Groq.'')))"
  using assms
  by (auto simp add: groq_POST_resolves gemini_generate_resolves aiReply_resolves groqReply_resolves
      groq_respond_def gemini_respond_def gemini_label_def aiReply_respond_def groqReply_respond_def
      get_prop_def js_or_def Let_def)

text \<open>Every call answered with status 200 and the body \<^verbatim>\<open>{"choices":[]}\<close>.\<close>

theorem empty_content_witness:
  "groq_POST stub_runtime stub_env (\<lambda>rq. Resolves 200 (Inr ''{\"choices\":[]}''))
     (Some (JObj [(''prompt'', JStr ''hi'')])) =
     ([groq_request stub_runtime ''gsk-test'' ''hi''],
      NextResponse_json (error_body ''Groq response had no content'') 500)
   \<and> gemini_generate stub_runtime (\<lambda>rq. Resolves 200 (Inr ''{\"choices\":[]}''))
       ''gem-test'' ''hi'' V1 (JStr ''models/m'') =
     ([generate_request stub_runtime ''gem-test'' V1 ''m'' ''hi''],
      Inr (NextResponse_json (error_body ''Gemini v1/m response had no content'') 500))
   \<and> aiReply stub_runtime (\<lambda>rq. Resolves 200 (Inr ''{\"choices\":[]}'')) ''hi'' Groq =
     ([aiReply_request stub_runtime ''hi'' Groq], Inl (Error ''groq returned empty response''))
   \<and> groqReply stub_runtime stub_env (\<lambda>rq. Resolves 200 (Inr ''{\"choices\":[]}'')) ''hi'' =
     ([groqReply_request stub_runtime ''pub-test'' ''hi''], Inr (JStr ''No response from Groq.''))"
  using empty_content [of 200 "''{\"choices\":[]}''" stub_runtime "JObj [(''choices'', JArr [])]"
      "JObj [(''prompt'', JStr ''hi'')]" "''hi''" stub_env "''gsk-test''"
      "\<lambda>rq. Resolves 200 (Inr ''{\"choices\":[]}'')" "''gem-test''" V1 "''models/m''" "''hi''"
      Groq "''pub-test''"]
  by (simp add: stub_runtime_def stub_parse_def stub_env_def opt_get_def strip_namespace_def
      res_ok_def groq_content_def js_or_def gemini_answer_def)

text \<open>
  The direct call from the client returns a placeholder text where the specification wants a
  failure.
\<close>

theorem groqReply_placeholder_counterexample:
  "groqReply stub_runtime stub_env (\<lambda>rq. Resolves 200 (Inr ''{\"choices\":[]}'')) ''hi'' =
     ([groqReply_request stub_runtime ''pub-test'' ''hi''], Inr (JStr ''No response from Groq.''))"
  by (simp add: groqReply_def fetch_text_def groqReply_respond_def stub_env_def stub_runtime_def
      stub_parse_def res_ok_def groq_content_def opt_get_def js_or_def)

section \<open>A call that does not connect\<close>

lemma listing_only_v1_listing:
  "listModels stub_runtime listing_only_upstream ''gem-test'' V1 =
     ([list_request stub_runtime ''gem-test'' V1],
      \<lparr>l_models = [model_entry ''models/y-pro'' [''generateContent'']], l_error = None\<rparr>)"
proof -
  have "listing_only_upstream (list_request stub_runtime ''gem-test'' V1)
          = Resolves 200
              (Inr ''{\"models\":[{\"name\":\"models/y-pro\",\"supportedGenerationMethods\":[\"generateContent\"]}]}'')"
    by (simp add: listing_only_upstream_def list_request_def)
  then show ?thesis
    by (rule listModels_listed)
      (simp_all add: stub_runtime_def stub_parse_def res_ok_def model_entry_def)
qed

lemma gemini_POST_generate_rejects:
  assumes "opt_get body ''prompt'' = JStr p" and "p \<noteq> []"
    and "GEMINI_API_KEY env = Some apiKey" and "apiKey \<noteq> []"
    and "pickGenerateContentModel rt (l_models (snd (listModels rt net apiKey V1))) = Inr (Some m)"
    and "own_prop m ''name'' = JStr name"
    and "net (generate_request rt apiKey V1 (strip_namespace name) p) = Rejects e"
  shows "gemini_POST rt env net (Some body) =
           ([list_request rt apiKey V1, generate_request rt apiKey V1 (strip_namespace name) p],
            route_failed ''Gemini route failed'' e)"
proof -
  obtain l where l: "listModels rt net apiKey V1 = ([list_request rt apiKey V1], l)"
    by (metis listModels_calls prod.collapse)
  with assms(5) have pick: "pickGenerateContentModel rt (l_models l) = Inr (Some m)" by simp
  have "gemini_discover rt net apiKey p =
          ([list_request rt apiKey V1, generate_request rt apiKey V1 (strip_namespace name) p], Inl e)"
    using gemini_discover_chosen_V1 [OF l pick, of p]
      gemini_generate_rejects [of net rt apiKey V1 name p e] assms(6,7)
    by simp
  then show ?thesis
    using assms(1-4) by (simp add: gemini_POST_def gemini_try_def)
qed

lemma beta_only_listings:
  "listModels stub_runtime beta_only_upstream ''gem-test'' V1 =
     ([list_request stub_runtime ''gem-test'' V1],
      \<lparr>l_models = [], l_error = Some ''ListModels fetch failed for v1: fetch failed''\<rparr>)"
  "listModels stub_runtime beta_only_upstream ''gem-test'' V1beta =
     ([list_request stub_runtime ''gem-test'' V1beta],
      \<lparr>l_models = [model_entry ''models/y-pro'' [''generateContent'']], l_error = None\<rparr>)"
proof -
  have "beta_only_upstream (list_request stub_runtime ''gem-test'' V1)
          = Rejects (JsError ''TypeError'' ''fetch failed'')"
    by (simp add: beta_only_upstream_def list_V1_not_v1beta)
  with listModels_rejects [of beta_only_upstream stub_runtime "''gem-test''" V1
      "JsError ''TypeError'' ''fetch failed''"]
  show "listModels stub_runtime beta_only_upstream ''gem-test'' V1 =
     ([list_request stub_runtime ''gem-test'' V1],
      \<lparr>l_models = [], l_error = Some ''ListModels fetch failed for v1: fetch failed''\<rparr>)"
    by simp
  have "beta_only_upstream (list_request stub_runtime ''gem-test'' V1beta)
          = Resolves 200
              (Inr ''{\"models\":[{\"name\":\"models/y-pro\",\"supportedGenerationMethods\":[\"generateContent\"]}]}'')"
    by (simp add: beta_only_upstream_def list_V1beta_v1beta) (simp add: list_request_def)
  then show "listModels stub_runtime beta_only_upstream ''gem-test'' V1beta =
     ([list_request stub_runtime ''gem-test'' V1beta],
      \<lparr>l_models = [model_entry ''models/y-pro'' [''generateContent'']], l_error = None\<rparr>)"
    by (rule listModels_listed)
      (simp_all add: stub_runtime_def stub_parse_def res_ok_def model_entry_def)
qed

lemma gemini_POST_generate_rejects_V1beta:
  assumes "opt_get body ''prompt'' = JStr p" and "p \<noteq> []"
    and "GEMINI_API_KEY env = Some apiKey" and "apiKey \<noteq> []"
    and "l_models (snd (listModels rt net apiKey V1)) = []"
    and "pickGenerateContentModel rt (l_models (snd (listModels rt net apiKey V1beta))) = Inr (Some m)"
    and "own_prop m ''name'' = JStr name"
    and "net (generate_request rt apiKey V1beta (strip_namespace name) p) = Rejects e"
  shows "gemini_POST rt env net (Some body) =
           ([list_request rt apiKey V1, list_request rt apiKey V1beta,
             generate_request rt apiKey V1beta (strip_namespace name) p],
            route_failed ''Gemini route failed'' e)"
proof -
  obtain l1 where l1: "listModels rt net apiKey V1 = ([list_request rt apiKey V1], l1)"
    by (metis listModels_calls prod.collapse)
  obtain l2 where l2: "listModels rt net apiKey V1beta = ([list_request rt apiKey V1beta], l2)"
    by (metis listModels_calls prod.collapse)
  from l1 assms(5) have empty: "l_models l1 = []" by simp
  from l2 assms(6) have pick: "pickGenerateContentModel rt (l_models l2) = Inr (Some m)" by simp
  have "gemini_discover rt net apiKey p =
          ([list_request rt apiKey V1, list_request rt apiKey V1beta,
            generate_request rt apiKey V1beta (strip_namespace name) p], Inl e)"
    using gemini_discover_chosen_V1beta [OF l1 empty l2 pick, of p]
      gemini_generate_rejects [of net rt apiKey V1beta name p e] assms(7,8)
    by simp
  then show ?thesis
    using assms(1-4) by (simp add: gemini_POST_def gemini_try_def)
qed

text \<open>
  C5, as amended. A transport-level failure of the HTTP call is never retried: the trace holds
  the failed call once. Only \<^verbatim>\<open>aiReply\<close> reports it as \<^verbatim>\<open>Failed to connect to <provider>: <cause>\<close>
  (a thrown error, the cause \<^verbatim>\<open>Network error\<close> when the fault has no message). The Groq route
  and the Gemini route answer HTTP 500 with the cause alone as error (\<^verbatim>\<open>Groq route failed\<close>,
  \<^verbatim>\<open>Gemini route failed\<close> when it has no message), the Gemini route whether its model was
  chosen from \<^verbatim>\<open>v1\<close> or from \<^verbatim>\<open>v1beta\<close>; \<^verbatim>\<open>listModels\<close> records
  \<^verbatim>\<open>ListModels fetch failed for <version>: <cause>\<close>; \<^verbatim>\<open>groqReply\<close> lets the fault through as it is.
\<close>

theorem transport_failure:
  assumes "opt_get body ''prompt'' = JStr p" and "p \<noteq> []"
  shows "(net (aiReply_request rt prompt provider) = Rejects e \<longrightarrow>
            aiReply rt net prompt provider =
              ([aiReply_request rt prompt provider],
               Inl (Error (''Failed to connect to '' @ provider_tag provider @ '': ''
                           @ (if err_message e \<noteq> [] then err_message e else ''Network error'')))))
       \<and> (GROQ_API_KEY env = Some key \<and> key \<noteq> [] \<and> net (groq_request rt key p) = Rejects e \<longrightarrow>
            groq_POST rt env net (Some body) =
              ([groq_request rt key p],
               NextResponse_json
                 (error_body (if err_message e \<noteq> [] then err_message e else ''Groq route failed''))
                 500))
       \<and> (GEMINI_API_KEY env = Some apiKey \<and> apiKey \<noteq> []
          \<and> pickGenerateContentModel rt (l_models (snd (listModels rt net apiKey V1))) = Inr (Some m)
          \<and> own_prop m ''name'' = JStr name
          \<and> net (generate_request rt apiKey V1 (strip_namespace name) p) = Rejects e \<longrightarrow>
            gemini_POST rt env net (Some body) =
              ([list_request rt apiKey V1, generate_request rt apiKey V1 (strip_namespace name) p],
               NextResponse_json
                 (error_body (if err_message e \<noteq> [] then err_message e else ''Gemini route failed''))
                 500))
       \<and> (GEMINI_API_KEY env = Some apiKey \<and> apiKey \<noteq> []
          \<and> l_models (snd (listModels rt net apiKey V1)) = []
          \<and> pickGenerateContentModel rt (l_models (snd (listModels rt net apiKey V1beta)))
              = Inr (Some m)
          \<and> own_prop m ''name'' = JStr name
          \<and> net (generate_request rt apiKey V1beta (strip_namespace name) p) = Rejects e \<longrightarrow>
            gemini_POST rt env net (Some body) =
              ([list_request rt apiKey V1, list_request rt apiKey V1beta,
                generate_request rt apiKey V1beta (strip_namespace name) p],
               NextResponse_json
                 (error_body (if err_message e \<noteq> [] then err_message e else ''Gemini route failed''))
                 500))
       \<and> (net (generate_request rt apiKey v (strip_namespace name) prompt) = Rejects e \<longrightarrow>
            gemini_generate rt net apiKey prompt v (JStr name) =
              ([generate_request rt apiKey v (strip_namespace name) prompt], Inl e))
       \<and> (net (list_request rt apiKey v) = Rejects e \<longrightarrow>
            listModels rt net apiKey v =
              ([list_request rt apiKey v],
               \<lparr>l_models = [],
                l_error = Some (''ListModels fetch failed for '' @ version_tag v @ '': ''
                                @ (if err_message e \<noteq> [] then err_message e
                                   else error_to_string e))\<rparr>))
       \<and> (NEXT_PUBLIC_GROQ_API_KEY env = Some pkey \<and> pkey \<noteq> []
          \<and> net (groqReply_request rt pkey prompt) = Rejects e \<longrightarrow>
            groqReply rt env net prompt = ([groqReply_request rt pkey prompt], Inl e))"
  using assms
  by (simp add: aiReply_rejects groq_POST_rejects gemini_POST_generate_rejects
      gemini_POST_generate_rejects_V1beta gemini_generate_rejects listModels_rejects
      groqReply_rejects route_failed_def)

text \<open>
  Every connection refused with \<^verbatim>\<open>fetch failed\<close>; for the Gemini route, an upstream that still
  lists \<^verbatim>\<open>models/y-pro\<close> in \<^verbatim>\<open>v1\<close> and refuses the generation call, and one that lists it in
  \<^verbatim>\<open>v1beta\<close> only and refuses the generation call.
\<close>

theorem transport_failure_witness:
  "aiReply stub_runtime (\<lambda>rq. Rejects (JsError ''TypeError'' ''fetch failed'')) ''hi'' Gemini =
     ([aiReply_request stub_runtime ''hi'' Gemini],
      Inl (Error ''Failed to connect to gemini: fetch failed''))
   \<and> groq_POST stub_runtime stub_env (\<lambda>rq. Rejects (JsError ''TypeError'' ''fetch failed''))
       (Some (JObj [(''prompt'', JStr ''hi'')])) =
     ([groq_request stub_runtime ''gsk-test'' ''hi''],
      NextResponse_json (error_body ''fetch failed'') 500)
   \<and> gemini_POST stub_runtime stub_env listing_only_upstream
       (Some (JObj [(''prompt'', JStr ''hi'')])) =
     ([list_request stub_runtime ''gem-test'' V1,
       generate_request stub_runtime ''gem-test'' V1 ''y-pro'' ''hi''],
      NextResponse_json (error_body ''fetch failed'') 500)
   \<and> gemini_POST stub_runtime stub_env beta_only_upstream
       (Some (JObj [(''prompt'', JStr ''hi'')])) =
     ([list_request stub_runtime ''gem-test'' V1, list_request stub_runtime ''gem-test'' V1beta,
       generate_request stub_runtime ''gem-test'' V1beta ''y-pro'' ''hi''],
      NextResponse_json (error_body ''fetch failed'') 500)
   \<and> gemini_generate stub_runtime (\<lambda>rq. Rejects (JsError ''TypeError'' ''fetch failed''))
       ''gem-test'' ''hi'' V1 (JStr ''models/y-pro'') =
     ([generate_request stub_runtime ''gem-test'' V1 ''y-pro'' ''hi''],
      Inl (JsError ''TypeError'' ''fetch failed''))
   \<and> listModels stub_runtime (\<lambda>rq. Rejects (JsError ''TypeError'' ''fetch failed''))
       ''gem-test'' V1 =
     ([list_request stub_runtime ''gem-test'' V1],
      \<lparr>l_models = [], l_error = Some ''ListModels fetch failed for v1: fetch failed''\<rparr>)
   \<and> groqReply stub_runtime stub_env (\<lambda>rq. Rejects (JsError ''TypeError'' ''fetch failed''))
       ''hi'' =
     ([groqReply_request stub_runtime ''pub-test'' ''hi''],
      Inl (JsError ''TypeError'' ''fetch failed''))"
proof -
  have pick: "pickGenerateContentModel stub_runtime
                (l_models (snd (listModels stub_runtime listing_only_upstream ''gem-test'' V1)))
              = Inr (Some (model_entry ''models/y-pro'' [''generateContent'']))"
    by (simp add: listing_only_v1_listing pick_single capable_def model_entry_def)
  have refused: "listing_only_upstream (generate_request stub_runtime ''gem-test'' V1 ''y-pro'' ''hi'')
                 = Rejects (JsError ''TypeError'' ''fetch failed'')"
    by (simp add: listing_only_upstream_def generate_request_def)
  have empty_beta: "l_models (snd (listModels stub_runtime beta_only_upstream ''gem-test'' V1)) = []"
    by (simp add: beta_only_listings)
  have pick_beta: "pickGenerateContentModel stub_runtime
                (l_models (snd (listModels stub_runtime beta_only_upstream ''gem-test'' V1beta)))
              = Inr (Some (model_entry ''models/y-pro'' [''generateContent'']))"
    by (simp add: beta_only_listings pick_single capable_def model_entry_def)
  have refused_beta:
    "beta_only_upstream (generate_request stub_runtime ''gem-test'' V1beta ''y-pro'' ''hi'')
       = Rejects (JsError ''TypeError'' ''fetch failed'')"
    by (simp add: beta_only_upstream_def generate_request_def)
  show ?thesis
    using transport_failure [of "JObj [(''prompt'', JStr ''hi'')]" "''hi''"
        "\<lambda>rq. Rejects (JsError ''TypeError'' ''fetch failed'')" stub_runtime "''hi''" Gemini
        "JsError ''TypeError'' ''fetch failed''" stub_env "''gsk-test''" "''gem-test''"
        "model_entry ''models/y-pro'' [''generateContent'']" "''models/y-pro''" V1 "''pub-test''"]
      transport_failure [of "JObj [(''prompt'', JStr ''hi'')]" "''hi''"
        listing_only_upstream stub_runtime "''hi''" Gemini
        "JsError ''TypeError'' ''fetch failed''" stub_env "''gsk-test''" "''gem-test''"
        "model_entry ''models/y-pro'' [''generateContent'']" "''models/y-pro''" V1 "''pub-test''"]
      transport_failure [of "JObj [(''prompt'', JStr ''hi'')]" "''hi''"
        beta_only_upstream stub_runtime "''hi''" Gemini
        "JsError ''TypeError'' ''fetch failed''" stub_env "''gsk-test''" "''gem-test''"
        "model_entry ''models/y-pro'' [''generateContent'']" "''models/y-pro''" V1 "''pub-test''"]
      pick refused empty_beta pick_beta refused_beta
    by (simp add: stub_env_def opt_get_def strip_namespace_def model_entry_def)
qed

text \<open>
  The Groq route reports a refused connection as the bare cause, not as
  \<^verbatim>\<open>Failed to connect to ...\<close>.
\<close>

theorem groq_transport_counterexample:
  "groq_POST stub_runtime stub_env (\<lambda>rq. Rejects (JsError ''TypeError'' ''fetch failed''))
     (Some (JObj [(''prompt'', JStr ''hi'')])) =
     ([groq_request stub_runtime ''gsk-test'' ''hi''],
      NextResponse_json (error_body ''fetch failed'') 500)
   \<and> \<not> prefix ''Failed to connect to '' ''fetch failed''"
  by (simp add: groq_POST_def groq_try_def fetch_text_def opt_get_def stub_env_def route_failed_def)

section \<open>A missing credential\<close>

text \<open>
  C6, as amended. For a request with a non-empty string prompt, when the server credential is
  absent (or empty) the Groq route answers HTTP 500 with \<^verbatim>\<open>GROQ_API_KEY not configured\<close> and
  the Gemini route HTTP 500 with \<^verbatim>\<open>GEMINI_API_KEY is not configured on the server\<close>. For every
  request, with the credential absent no outbound call is issued.
\<close>

theorem missing_credential:
  assumes "opt_get body ''prompt'' = JStr p" and "p \<noteq> []"
  shows "(GROQ_API_KEY env = None \<or> GROQ_API_KEY env = Some [] \<longrightarrow>
            groq_POST rt env net (Some body) =
              ([], NextResponse_json (error_body ''GROQ_API_KEY not configured'') 500))
       \<and> (GEMINI_API_KEY env = None \<or> GEMINI_API_KEY env = Some [] \<longrightarrow>
            gemini_POST rt env net (Some body) =
              ([], NextResponse_json
                     (error_body ''GEMINI_API_KEY is not configured on the server'') 500))
       \<and> (GROQ_API_KEY env = None \<or> GROQ_API_KEY env = Some [] \<longrightarrow>
            fst (groq_POST rt env net req) = [])
       \<and> (GEMINI_API_KEY env = None \<or> GEMINI_API_KEY env = Some [] \<longrightarrow>
            fst (gemini_POST rt env net req) = [])"
  using assms
  by (auto simp add: groq_POST_def groq_try_def gemini_POST_def gemini_try_def Let_def
      split: option.splits)

theorem missing_credential_witness:
  "groq_POST stub_runtime empty_env (\<lambda>rq. Resolves 200 (Inr ''{}''))
     (Some (JObj [(''prompt'', JStr ''hi'')])) =
     ([], NextResponse_json (error_body ''GROQ_API_KEY not configured'') 500)
   \<and> gemini_POST stub_runtime empty_env (\<lambda>rq. Resolves 200 (Inr ''{}''))
       (Some (JObj [(''prompt'', JStr ''hi'')])) =
     ([], NextResponse_json (error_body ''GEMINI_API_KEY is not configured on the server'') 500)
   \<and> fst (groq_POST stub_runtime empty_env (\<lambda>rq. Resolves 200 (Inr ''{}'')) None) = []
   \<and> fst (gemini_POST stub_runtime empty_env (\<lambda>rq. Resolves 200 (Inr ''{}'')) None) = []"
  using missing_credential [of "JObj [(''prompt'', JStr ''hi'')]" "''hi''" empty_env stub_runtime
      "\<lambda>rq. Resolves 200 (Inr ''{}'')" None]
  by (simp add: opt_get_def empty_env_def)

text \<open>
  The Gemini route words the error otherwise, and a request that is not JSON gets HTTP 400
  whether or not the credential is there.
\<close>

theorem missing_credential_counterexample:
  "gemini_POST stub_runtime empty_env (\<lambda>rq. Resolves 200 (Inr ''{}''))
     (Some (JObj [(''prompt'', JStr ''hi'')])) =
     ([], NextResponse_json (error_body ''GEMINI_API_KEY is not configured on the server'') 500)
   \<and> ''GEMINI_API_KEY is not configured on the server'' \<noteq> ''GEMINI_API_KEY not configured''
   \<and> groq_POST stub_runtime empty_env (\<lambda>rq. Resolves 200 (Inr ''{}'')) None =
     ([], NextResponse_json (error_body ''Invalid request body'') 400)"
  by (simp add: gemini_POST_def gemini_try_def groq_POST_def groq_try_def opt_get_def empty_env_def)

section \<open>An upstream error status\<close>

text \<open>
  C7, as amended. When the upstream status is not 2xx and the body decodes as JSON, each call
  site takes its message from the first truthy of its own candidates and fails in its own form:
  the Groq route from \<^verbatim>\<open>error.message\<close>, \<^verbatim>\<open>error\<close>, the whole body, as
  \<^verbatim>\<open>Groq API Error (<status>): <message>\<close> with the upstream status; the Gemini generation call
  from \<^verbatim>\<open>error.message\<close>, the top-level \<^verbatim>\<open>message\<close>, the whole body, as
  \<^verbatim>\<open>Gemini API Error (<version>/<model> - <status>): <message>\<close>; \<^verbatim>\<open>groqReply\<close> from
  \<^verbatim>\<open>error.message\<close>, \<^verbatim>\<open>error\<close>, the whole body, thrown as \<^verbatim>\<open>Groq error (<status>): <message>\<close>;
  \<^verbatim>\<open>listModels\<close> from \<^verbatim>\<open>error.message\<close>, the whole body, recorded as
  \<^verbatim>\<open>ListModels API error (<status>) for <version>: <message>\<close>; \<^verbatim>\<open>aiReply\<close> throws the handler's
  \<^verbatim>\<open>error\<close>, or \<^verbatim>\<open><provider> API error (<status>)\<close> without one.
\<close>

theorem upstream_error_message:
  assumes "\<not> res_ok st" and "raw \<noteq> []" and "JSON_parse rt raw = Some json"
  shows "groq_error_value rt json =
           (if truthy (opt_get (opt_get json ''error'') ''message'')
              then opt_get (opt_get json ''error'') ''message''
            else if truthy (opt_get json ''error'') then opt_get json ''error''
            else if is_string json then json else JStr (JSON_stringify rt json))
       \<and> (opt_get body ''prompt'' = JStr p \<and> p \<noteq> [] \<and> GROQ_API_KEY env = Some key \<and> key \<noteq> []
          \<and> net (groq_request rt key p) = Resolves st (Inr raw)
          \<and> to_string rt (groq_error_value rt json) = Inr msg \<longrightarrow>
            groq_POST rt env net (Some body) =
              ([groq_request rt key p],
               NextResponse_json
                 (error_body (''Groq API Error ('' @ decimal st @ ''): '' @ msg)) st))
       \<and> gemini_error_value rt json =
           (if truthy (opt_get (opt_get json ''error'') ''message'')
              then opt_get (opt_get json ''error'') ''message''
            else if truthy (opt_get json ''message'') then opt_get json ''message''
            else if is_string json then json else JStr (JSON_stringify rt json))
       \<and> (net (generate_request rt apiKey v (strip_namespace name) prompt) = Resolves st (Inr raw)
          \<and> to_string rt (gemini_error_value rt json) = Inr msg \<longrightarrow>
            gemini_generate rt net apiKey prompt v (JStr name) =
              ([generate_request rt apiKey v (strip_namespace name) prompt],
               Inr (NextResponse_json
                      (error_body (''Gemini API Error ('' @ version_tag v @ ''/''
                                   @ strip_namespace name @ '' - '' @ decimal st @ ''): '' @ msg))
                      st)))
       \<and> groqReply_error_value rt json =
           (if truthy (opt_get (opt_get json ''error'') ''message'')
              then opt_get (opt_get json ''error'') ''message''
            else if truthy (opt_get json ''error'') then opt_get json ''error''
            else JStr (JSON_stringify rt json))
       \<and> (NEXT_PUBLIC_GROQ_API_KEY env = Some pkey \<and> pkey \<noteq> []
          \<and> net (groqReply_request rt pkey prompt) = Resolves st (Inr raw)
          \<and> to_string rt (groqReply_error_value rt json) = Inr msg \<longrightarrow>
            groqReply rt env net prompt =
              ([groqReply_request rt pkey prompt],
               Inl (Error (''Groq error ('' @ decimal st @ ''): '' @ msg))))
       \<and> list_error_value rt json =
           (if truthy (opt_get (opt_get json ''error'') ''message'')
              then opt_get (opt_get json ''error'') ''message''
            else JStr (JSON_stringify rt json))
       \<and> (net (list_request rt apiKey v) = Resolves st (Inr raw)
          \<and> to_string rt (list_error_value rt json) = Inr msg \<longrightarrow>
            listModels rt net apiKey v =
              ([list_request rt apiKey v],
               \<lparr>l_models = [],
                l_error = Some (''ListModels API error ('' @ decimal st @ '') for ''
                                @ version_tag v @ '': '' @ msg)\<rparr>))
       \<and> (net (aiReply_request rt prompt provider) = Resolves st (Inr raw) \<and> \<not> nullish json
          \<and> to_string rt
               (if truthy (own_prop json ''error'') then own_prop json ''error''
                else JStr (provider_tag provider @ '' API error ('' @ decimal st @ '')'')) = Inr msg \<longrightarrow>
            aiReply rt net prompt provider =
              ([aiReply_request rt prompt provider], Inl (Error msg)))"
  using assms
  by (auto simp add: groq_POST_resolves gemini_generate_resolves aiReply_resolves groqReply_resolves
      listModels_api_error
      groq_respond_def gemini_respond_def aiReply_respond_def groqReply_respond_def
      groq_error_value_def gemini_error_value_def groqReply_error_value_def list_error_value_def
      get_prop_def js_or_def)

lemma quota_error_values:
  "groq_error_value stub_runtime (JObj [(''error'', JStr ''quota'')]) = JStr ''quota''"
  "gemini_error_value stub_runtime (JObj [(''error'', JStr ''quota'')]) = JStr ''{\"error\":\"quota\"}''"
  "groqReply_error_value stub_runtime (JObj [(''error'', JStr ''quota'')]) = JStr ''quota''"
  "list_error_value stub_runtime (JObj [(''error'', JStr ''quota'')]) = JStr ''{\"error\":\"quota\"}''"
  by (simp_all add: groq_error_value_def gemini_error_value_def groqReply_error_value_def
      list_error_value_def opt_get_def js_or_def stub_runtime_def stub_stringify_def)

text \<open>Every call answered with status 429 and the body \<^verbatim>\<open>{"error":"quota"}\<close>.\<close>

theorem upstream_error_message_witness:
  "groq_POST stub_runtime stub_env (\<lambda>rq. Resolves 429 (Inr ''{\"error\":\"quota\"}''))
     (Some (JObj [(''prompt'', JStr ''hi'')])) =
     ([groq_request stub_runtime ''gsk-test'' ''hi''],
      NextResponse_json (error_body ''Groq API Error (429): quota'') 429)
   \<and> gemini_generate stub_runtime (\<lambda>rq. Resolves 429 (Inr ''{\"error\":\"quota\"}'')) ''gem-test''
       ''hi'' V1 (JStr ''models/m'') =
     ([generate_request stub_runtime ''gem-test'' V1 ''m'' ''hi''],
      Inr (NextResponse_json
             (error_body ''Gemini API Error (v1/m - 429): {\"error\":\"quota\"}'') 429))
   \<and> groqReply stub_runtime stub_env (\<lambda>rq. Resolves 429 (Inr ''{\"error\":\"quota\"}'')) ''hi'' =
     ([groqReply_request stub_runtime ''pub-test'' ''hi''],
      Inl (Error ''Groq error (429): quota''))
   \<and> listModels stub_runtime (\<lambda>rq. Resolves 429 (Inr ''{\"error\":\"quota\"}'')) ''gem-test'' V1 =
     ([list_request stub_runtime ''gem-test'' V1],
      \<lparr>l_models = [],
       l_error = Some ''ListModels API error (429) for v1: {\"error\":\"quota\"}''\<rparr>)
   \<and> aiReply stub_runtime (\<lambda>rq. Resolves 429 (Inr ''{\"error\":\"quota\"}'')) ''hi'' Groq =
     ([aiReply_request stub_runtime ''hi'' Groq], Inl (Error ''quota''))"
proof -
  have g: "to_string stub_runtime (groq_error_value stub_runtime (JObj [(''error'', JStr ''quota'')]))
           = Inr ''quota''"
    and r: "to_string stub_runtime
              (groqReply_error_value stub_runtime (JObj [(''error'', JStr ''quota'')]))
            = Inr ''quota''"
    and m: "to_string stub_runtime
              (gemini_error_value stub_runtime (JObj [(''error'', JStr ''quota'')]))
            = Inr ''{\"error\":\"quota\"}''"
    and l: "to_string stub_runtime
              (list_error_value stub_runtime (JObj [(''error'', JStr ''quota'')]))
            = Inr ''{\"error\":\"quota\"}''"
    by (simp_all add: quota_error_values)
  show ?thesis
    using upstream_error_message [of 429 "''{\"error\":\"quota\"}''" stub_runtime
        "JObj [(''error'', JStr ''quota'')]" "JObj [(''prompt'', JStr ''hi'')]" "''hi''" stub_env
        "''gsk-test''" "\<lambda>rq. Resolves 429 (Inr ''{\"error\":\"quota\"}'')" "''quota''"
        "''gem-test''" V1 "''models/m''" "''hi''" "''pub-test''" Groq]
      upstream_error_message [of 429 "''{\"error\":\"quota\"}''" stub_runtime
        "JObj [(''error'', JStr ''quota'')]" "JObj [(''prompt'', JStr ''hi'')]" "''hi''" stub_env
        "''gsk-test''" "\<lambda>rq. Resolves 429 (Inr ''{\"error\":\"quota\"}'')"
        "''{\"error\":\"quota\"}''"
        "''gem-test''" V1 "''models/m''" "''hi''" "''pub-test''" Groq] g r m l
    by (simp add: stub_runtime_def stub_parse_def stub_env_def opt_get_def res_ok_def decimal_429
        strip_namespace_def)
qed

text \<open>
  The Gemini generation call does not look at a bare \<^verbatim>\<open>error\<close> field and words its failure
  with the version and the model: on \<^verbatim>\<open>{"error":"quota"}\<close> it reports the whole body.
\<close>

theorem gemini_error_shape_counterexample:
  "gemini_generate stub_runtime (\<lambda>rq. Resolves 429 (Inr ''{\"error\":\"quota\"}'')) ''gem-test''
     ''hi'' V1 (JStr ''models/m'') =
     ([generate_request stub_runtime ''gem-test'' V1 ''m'' ''hi''],
      Inr (NextResponse_json
             (error_body ''Gemini API Error (v1/m - 429): {\"error\":\"quota\"}'') 429))
   \<and> ''Gemini API Error (v1/m - 429): {\"error\":\"quota\"}'' \<noteq> ''Gemini API Error (429): quota''"
  by (simp add: gemini_generate_def bareModel_of_def strip_namespace_def fetch_text_def
      gemini_respond_def stub_runtime_def stub_parse_def stub_stringify_def res_ok_def
      gemini_error_value_def opt_get_def js_or_def decimal_429)

section \<open>One envelope per request\<close>

lemma null_listing_v1_listing:
  "listModels stub_runtime null_listing_upstream ''gem-test'' V1 =
     ([list_request stub_runtime ''gem-test'' V1], \<lparr>l_models = [JNull], l_error = None\<rparr>)"
proof -
  have "null_listing_upstream (list_request stub_runtime ''gem-test'' V1)
          = Resolves 200 (Inr ''{\"models\":[null]}'')"
    by (simp add: null_listing_upstream_def)
  then show ?thesis
    by (rule listModels_listed) (simp_all add: stub_runtime_def stub_parse_def res_ok_def)
qed

lemma null_listing_try:
  "gemini_try stub_runtime stub_env null_listing_upstream (Some (JObj [(''prompt'', JStr ''hi'')])) =
     ([list_request stub_runtime ''gem-test'' V1],
      Inl (TypeError stub_runtime (ReadOfNullish JNull ''supportedGenerationMethods'')))"
  by (simp add: gemini_try_def opt_get_def stub_env_def gemini_discover_def null_listing_v1_listing
      pickGenerateContentModel_def supportsGenerate_def get_prop_def)

text \<open>
  C8. Each request handler returns, for every request, every environment and every behaviour
  of the upstream, one reply whose body is either a NormalizedError (an \<^verbatim>\<open>error\<close> string, no
  \<^verbatim>\<open>text\<close>, no \<^verbatim>\<open>provider\<close>) or a NormalizedResult (\<^verbatim>\<open>text\<close> and \<^verbatim>\<open>provider\<close>, no \<^verbatim>\<open>error\<close>), never
  both and never neither; a fault thrown anywhere inside the handler is answered with the
  error envelope of HTTP 500.
\<close>

theorem one_envelope:
  "(is_NormalizedError (reply_body (snd (groq_POST rt env net req)))
      \<noteq> is_NormalizedResult (reply_body (snd (groq_POST rt env net req))))
   \<and> (is_NormalizedError (reply_body (snd (gemini_POST rt env net req)))
      \<noteq> is_NormalizedResult (reply_body (snd (gemini_POST rt env net req))))
   \<and> (\<forall>calls e. groq_try rt env net req = (calls, Inl e) \<longrightarrow>
         groq_POST rt env net req = (calls, route_failed ''Groq route failed'' e)
         \<and> reply_status (route_failed ''Groq route failed'' e) = 500
         \<and> is_NormalizedError (reply_body (route_failed ''Groq route failed'' e)))
   \<and> (\<forall>calls e. gemini_try rt env net req = (calls, Inl e) \<longrightarrow>
         gemini_POST rt env net req = (calls, route_failed ''Gemini route failed'' e)
         \<and> reply_status (route_failed ''Gemini route failed'' e) = 500
         \<and> is_NormalizedError (reply_body (route_failed ''Gemini route failed'' e)))"
proof -
  have g: "is_NormalizedError (reply_body (snd (groq_POST rt env net req)))
      \<noteq> is_NormalizedResult (reply_body (snd (groq_POST rt env net req)))"
  proof (cases "groq_try rt env net req")
    case (Pair calls res)
    then show ?thesis
      using groq_try_envelope [of rt env net req calls] route_failed_envelope
      by (cases res) (auto simp add: groq_POST_def)
  qed
  have m: "is_NormalizedError (reply_body (snd (gemini_POST rt env net req)))
      \<noteq> is_NormalizedResult (reply_body (snd (gemini_POST rt env net req)))"
  proof (cases "gemini_try rt env net req")
    case (Pair calls res)
    then show ?thesis
      using gemini_try_envelope [of rt env net req calls] route_failed_envelope
      by (cases res) (auto simp add: gemini_POST_def)
  qed
  have s: "reply_status (route_failed fb e) = 500" for fb e
    by (simp add: route_failed_def NextResponse_json_def)
  show ?thesis
    using g m s route_failed_envelope by (simp add: groq_POST_def gemini_POST_def)
qed

text \<open>
  A listing that holds \<^verbatim>\<open>null\<close> makes the selection throw inside the Gemini handler; the
  handler answers with the error envelope.
\<close>

theorem one_envelope_witness:
  "gemini_POST stub_runtime stub_env null_listing_upstream (Some (JObj [(''prompt'', JStr ''hi'')])) =
     ([list_request stub_runtime ''gem-test'' V1],
      NextResponse_json (error_body ''type error'') 500)
   \<and> is_NormalizedError
       (reply_body (snd (gemini_POST stub_runtime stub_env null_listing_upstream
                           (Some (JObj [(''prompt'', JStr ''hi'')])))))
   \<and> \<not> is_NormalizedResult
       (reply_body (snd (gemini_POST stub_runtime stub_env null_listing_upstream
                           (Some (JObj [(''prompt'', JStr ''hi'')])))))"
  using one_envelope [of stub_runtime stub_env null_listing_upstream
      "Some (JObj [(''prompt'', JStr ''hi'')])"] null_listing_try
  by (auto simp add: route_failed_def TypeError_def stub_runtime_def)

end
